theory Spec2Isabelle
  imports Complex_Main
begin

section \<open>Data model (app/models.py)\<close>

text \<open>
  Dates are day numbers (the difference of two \<open>datetime.date\<close> values is read through
  \<open>.days\<close> only), timestamps are abstract clock readings, and \<open>Decimal\<close> amounts are
  exact rationals. Status columns are strings, as in the source: a status outside the
  documented vocabulary is a value the code can meet.

  A row constructor builds the row from the keyword arguments the calling code passes,
  and raises TypeError for a keyword that names no attribute of the row's class. The
  classes of app/models.py declare no \<open>description\<close> on a journal entry and no
  \<open>payment_id\<close> or \<open>invoice_id\<close> on a journal line; the constructors of these two
  classes are modelled with the undeclared keywords of the call as an argument, and
  give as \<open>Inl\<close> the message of the TypeError they raise.
  Relationships are modelled by containment (\<open>booking.room\<close>, \<open>booking.invoice\<close>,
  \<open>booking.payments\<close>, \<open>journal_entry.lines\<close>). \<open>booking.payments\<close> is a dynamic
  relationship: reading it queries the payments of the booking after the session's
  autoflush, so a payment added to the session for this booking is part of it.
\<close>

type_synonym date = int
type_synonym timestamp = int
type_synonym money = rat

record room_type =
  rt_name :: string
  base_price :: money

record room =
  room_id :: nat
  room_hotel_id :: nat
  room_number :: string
  room_status :: string
  room_room_type :: "room_type option"

text \<open>
  Messages: plain text, text around an amount printed by a number format, or text
  followed by a date printed by \<open>strftime\<close>.
\<close>

datatype message = Msg string | MsgAmount string money string | MsgDate string date

text \<open>A text put in front of a message.\<close>

fun prefix_message :: "string \<Rightarrow> message \<Rightarrow> message" where
  "prefix_message p (Msg s) = Msg (p @ s)"
| "prefix_message p (MsgAmount a x b) = MsgAmount (p @ a) x b"
| "prefix_message p (MsgDate a d) = MsgDate (p @ a) d"

record payment =
  payment_hotel_id :: nat
  payment_invoice_id :: "nat option"
  payment_booking_id :: nat
  payment_amount :: money
  payment_method :: string
  payment_notes :: "message option"
  payment_deleted :: bool

record invoice =
  invoice_id :: "nat option"
  invoice_hotel_id :: nat
  invoice_booking_id :: nat
  invoice_number :: string
  invoice_total :: money
  invoice_status :: string

record guest =
  g_id :: nat
  g_name :: string
  g_email :: "string option"
  g_phone :: "string option"

record booking =
  booking_id :: nat
  booking_hotel_id :: nat
  guest_id :: "nat option"
  guest_name :: string
  guest_email :: string
  guest_phone :: string
  adults :: int
  children :: int
  special_requests :: string
  source :: string
  booking_reference :: string
  booking_room :: "room option"
  check_in_date :: date
  check_out_date :: date
  check_in_time_actual :: "timestamp option"
  check_out_time_actual :: "timestamp option"
  booking_status :: string
  total_amount :: money
  amount_paid :: money
  balance :: money
  cancelled_at :: "timestamp option"
  cancellation_reason :: "string option"
  booking_invoice :: "invoice option"
  booking_payments :: "payment list"

record room_status_history =
  history_hotel_id :: nat
  history_room_id :: nat
  history_old_status :: string
  history_new_status :: string

record housekeeping_task =
  task_hotel_id :: nat
  task_room_id :: nat
  task_type :: string
  task_priority :: string
  task_status :: string
  task_notes :: string

record room_service_order =
  order_id :: nat
  order_room_id :: nat
  order_status :: string

record maintenance_issue =
  issue_room_id :: nat
  issue_status :: string
  issue_priority :: string
  issue_type :: string

record restaurant_order =
  restaurant_order_hotel_id :: nat
  restaurant_order_status :: string

record user =
  user_id :: nat
  user_hotel_id :: nat

record chart_of_account =
  account_id :: nat
  account_hotel_id :: nat
  account_name :: string
  account_type :: string

record journal_line =
  line_account_id :: nat
  debit :: money
  credit :: money

text \<open>
  The reference of a journal entry is a text formatted from an id or from an id and a
  date; it is kept as the name of the format with its arguments.
\<close>

datatype reference =
  NoReference | PAY nat | REFUND nat | OOO_ROOM nat date | OOO_END nat date | BOOKING string

record journal_entry =
  entry_hotel_id :: nat
  entry_reference :: reference
  entry_date :: date
  entry_lines :: "journal_line list"

record business_date =
  business_date_hotel_id :: nat
  current_business_date :: date
  is_closed :: bool
  business_date_updated_at :: "timestamp option"

record notification =
  notification_user_id :: nat
  notification_hotel_id :: nat
  notification_title :: string
  notification_message :: message
  notification_color :: string
  notification_type :: string
  notification_link :: string

record audit_summary =
  summary_unpaid_bookings :: nat
  summary_pending_orders :: nat
  summary_checked_in_guests :: nat
  summary_rooms_charged :: nat
  summary_revenue_posted :: money
  summary_warnings :: "string list"
  summary_errors :: "string list"

record night_audit_log =
  log_hotel_id :: nat
  log_audit_date :: date
  log_run_by :: nat
  log_started_at :: timestamp
  log_completed_at :: "timestamp option"
  log_status :: string
  log_summary :: "audit_summary option"
  log_errors :: "string option"
  log_notes :: "(date \<times> money \<times> nat) option"

text \<open>
  The database as the modelled code reads and writes it: one list per table, in the
  order a query returns the rows (\<open>.first()\<close> is the first row of the list that passes
  the filter). \<open>db.session.add\<close> appends a row; \<open>db.session.rollback()\<close> gives the
  database back as it was when the unit of work began.
\<close>

record db =
  db_bookings :: "booking list"
  db_tasks :: "housekeeping_task list"
  db_room_service_orders :: "room_service_order list"
  db_maintenance_issues :: "maintenance_issue list"
  db_restaurant_orders :: "restaurant_order list"
  db_users :: "user list"
  db_history :: "room_status_history list"
  db_notifications :: "notification list"
  db_accounts :: "chart_of_account list"
  db_journal :: "journal_entry list"
  db_business_dates :: "business_date list"
  db_audit_logs :: "night_audit_log list"

text \<open>The exceptions the modelled code raises; a TypeError carries its text.\<close>

datatype exn = AttributeError | ValueError | TypeError string

text \<open>
  The constructors of \<open>JournalEntry\<close> and \<open>JournalLine\<close>. The last argument lists
  the keywords of the call that the class does not declare; the first of them makes the
  constructor raise.
\<close>

definition invalid_keyword :: "string \<Rightarrow> string \<Rightarrow> string" where
  "invalid_keyword k cls =
     [CHR 0x27] @ k @ [CHR 0x27] @ '' is an invalid keyword argument for '' @ cls"

definition JournalEntry :: "nat \<Rightarrow> reference \<Rightarrow> date \<Rightarrow> string list \<Rightarrow> string + journal_entry" where
  "JournalEntry hotel ref day undeclared =
     (case undeclared of
        k # _ \<Rightarrow> Inl (invalid_keyword k ''JournalEntry'')
      | [] \<Rightarrow> Inr \<lparr>entry_hotel_id = hotel, entry_reference = ref, entry_date = day,
                     entry_lines = []\<rparr>)"

definition JournalLine :: "nat \<Rightarrow> money \<Rightarrow> money \<Rightarrow> string list \<Rightarrow> string + journal_line" where
  "JournalLine account dr cr undeclared =
     (case undeclared of
        k # _ \<Rightarrow> Inl (invalid_keyword k ''JournalLine'')
      | [] \<Rightarrow> Inr \<lparr>line_account_id = account, debit = dr, credit = cr\<rparr>)"

text \<open>\<open>str\<close> of a Python integer.\<close>

definition digit_char :: "nat \<Rightarrow> char" where
  "digit_char d = char_of (48 + d)"

fun str_nat_fuel :: "nat \<Rightarrow> nat \<Rightarrow> string" where
  "str_nat_fuel 0 n = [digit_char (n mod 10)]"
| "str_nat_fuel (Suc k) n =
     (if n < 10 then [digit_char n] else str_nat_fuel k (n div 10) @ [digit_char (n mod 10)])"

definition str_nat :: "nat \<Rightarrow> string" where
  "str_nat n = str_nat_fuel n n"

definition str_int :: "int \<Rightarrow> string" where
  "str_int i = (if i < 0 then ''-'' @ str_nat (nat (- i)) else str_nat (nat i))"

text \<open>\<open>Decimal.quantize(Decimal('0.01'))\<close>: two decimals, ties to the even digit.\<close>

definition quantize_cents :: "money \<Rightarrow> money" where
  "quantize_cents x =
     (let s = x * 100; f = \<lfloor>s\<rfloor>; r = s - of_int f
      in of_int (if r < 1 / 2 then f else if 1 / 2 < r then f + 1
                 else if even f then f else f + 1) / 100)"

text \<open>\<open>Booking.calculate_balance\<close>: the balance is recomputed from the payments.\<close>

definition calculate_balance :: "booking \<Rightarrow> booking" where
  "calculate_balance b =
     (let total_paid = sum_list (map payment_amount (booking_payments b))
      in b\<lparr>amount_paid := total_paid, balance := total_amount b - total_paid\<rparr>)"

section \<open>Booking state machine (app/hms\_booking\_service.py)\<close>

definition BOOKING_STATUS_TRANSITIONS :: "(string \<times> string list) list" where
  "BOOKING_STATUS_TRANSITIONS =
     [(''Reserved'', [''CheckedIn'', ''Cancelled'', ''NoShow'']),
      (''CheckedIn'', [''CheckedOut'']),
      (''CheckedOut'', []),
      (''Cancelled'', []),
      (''NoShow'', [])]"

text \<open>\<open>d.get(k, [])\<close> on a table of lists.\<close>

definition get_list :: "(string \<times> string list) list \<Rightarrow> string \<Rightarrow> string list" where
  "get_list d k = (case map_of d k of None \<Rightarrow> [] | Some v \<Rightarrow> v)"

definition BookingStateMachine_validate_transition :: "string \<Rightarrow> string \<Rightarrow> bool \<times> string" where
  "BookingStateMachine_validate_transition current_status new_status =
     (if current_status = new_status then (False, ''Booking is already in this status'')
      else let allowed_transitions = get_list BOOKING_STATUS_TRANSITIONS current_status
           in if new_status \<notin> set allowed_transitions
              then (False, ''Cannot transition from '' @ current_status @ '' to '' @ new_status)
              else (True, ''''))"

text \<open>Python truthiness of an optional string (\<open>if reason:\<close>).\<close>

definition truthy :: "string option \<Rightarrow> bool" where
  "truthy r = (case r of None \<Rightarrow> False | Some s \<Rightarrow> s \<noteq> [])"

text \<open>
  \<open>BookingStateMachine.change_status\<close>; \<open>now\<close> is the reading of \<open>datetime.utcnow()\<close>.
\<close>

definition BookingStateMachine_change_status ::
  "timestamp \<Rightarrow> booking \<Rightarrow> string \<Rightarrow> string option \<Rightarrow> bool \<times> string \<times> booking" where
  "BookingStateMachine_change_status now b new_st reason =
     (case BookingStateMachine_validate_transition (booking_status b) new_st of
        (False, error_msg) \<Rightarrow> (False, error_msg, b)
      | (True, _) \<Rightarrow>
          (let old_st = booking_status b;
               b1 = b\<lparr>booking_status := new_st\<rparr>;
               b2 = (if new_st = ''CheckedIn'' then b1\<lparr>check_in_time_actual := Some now\<rparr>
                     else if new_st = ''CheckedOut'' then b1\<lparr>check_out_time_actual := Some now\<rparr>
                     else if new_st = ''Cancelled''
                       then (let b3 = b1\<lparr>cancelled_at := Some now\<rparr>
                             in if truthy reason then b3\<lparr>cancellation_reason := reason\<rparr> else b3)
                     else b1)
           in (True, ''Booking status changed from '' @ old_st @ '' to '' @ new_st, b2)))"

text \<open>
  A booking's history under the state machine: a sequence of requested status changes,
  each applied through \<open>BookingStateMachine.change_status\<close>; a rejected request leaves the booking as it is.
\<close>

fun change_status_seq :: "booking \<Rightarrow> (timestamp \<times> string \<times> string option) list \<Rightarrow> booking" where
  "change_status_seq b [] = b"
| "change_status_seq b ((now, new_st, reason) # rest) =
     change_status_seq (snd (snd (BookingStateMachine_change_status now b new_st reason))) rest"

text \<open>The edges of the booking machine, as the specification lists them.\<close>

definition booking_edges :: "(string \<times> string) set" where
  "booking_edges =
     {(''Reserved'', ''CheckedIn''), (''Reserved'', ''Cancelled''), (''Reserved'', ''NoShow''),
      (''CheckedIn'', ''CheckedOut'')}"

section \<open>Room status manager and checkout (app/hms\_housekeeping\_service.py)\<close>

definition VALID_STATUS_TRANSITIONS :: "(string \<times> string list) list" where
  "VALID_STATUS_TRANSITIONS =
     [(''Vacant'', [''Dirty'', ''Reserved'', ''Maintenance'', ''Occupied'']),
      (''Dirty'', [''Vacant'', ''Maintenance'']),
      (''Occupied'', [''Dirty'', ''Maintenance'']),
      (''Reserved'', [''Occupied'', ''Vacant'', ''Dirty'']),
      (''Maintenance'', [''Vacant'', ''Dirty''])]"

definition RoomStatusManager_validate_transition :: "string \<Rightarrow> string \<Rightarrow> bool \<times> string" where
  "RoomStatusManager_validate_transition current_status new_status =
     (if current_status = new_status then (False, ''Room is already in this status'')
      else let allowed_transitions = get_list VALID_STATUS_TRANSITIONS current_status
           in if new_status \<notin> set allowed_transitions
              then (False, ''Cannot transition from '' @ current_status @ '' to '' @ new_status)
              else (True, ''''))"


definition RoomStatusManager_change_status ::
  "db \<Rightarrow> room \<Rightarrow> string \<Rightarrow> (bool \<times> string) \<times> room \<times> db" where
  "RoomStatusManager_change_status d r new_st =
     (case RoomStatusManager_validate_transition (room_status r) new_st of
        (False, error_msg) \<Rightarrow> ((False, error_msg), r, d)
      | (True, _) \<Rightarrow>
          (let old_st = room_status r;
               r' = r\<lparr>room_status := new_st\<rparr>;
               d' = (if old_st \<noteq> new_st
                     then d\<lparr>db_history := db_history d @
                            [\<lparr>history_hotel_id = room_hotel_id r, history_room_id = room_id r,
                              history_old_status = old_st, history_new_status = new_st\<rparr>]\<rparr>
                     else d)
           in ((True, ''Room status changed from '' @ old_st @ '' to '' @ new_st), r', d')))"

text \<open>
  \<open>CheckoutProcessor.process_checkout\<close>: the outcome of the status change is not looked
  at; the cleaning task is created in every case.
\<close>

definition process_checkout :: "db \<Rightarrow> room \<Rightarrow> housekeeping_task \<times> room \<times> db" where
  "process_checkout d r =
     (case RoomStatusManager_change_status d r ''Dirty'' of
        (_, r', d') \<Rightarrow>
          (let task = \<lparr>task_hotel_id = room_hotel_id r', task_room_id = room_id r',
                        task_type = ''checkout_clean'', task_priority = ''high'',
                        task_status = ''pending'',
                        task_notes = ''Checkout cleaning - Room '' @ room_number r'\<rparr>
           in (task, r', d'\<lparr>db_tasks := db_tasks d' @ [task]\<rparr>)))"

section \<open>Room management service (app/hms\_room\_service.py)\<close>

definition VALID_ROOM_TRANSITIONS :: "(string \<times> string list) list" where
  "VALID_ROOM_TRANSITIONS =
     [(''Vacant'', [''Dirty'', ''Reserved'', ''Maintenance'', ''Occupied'']),
      (''Dirty'', [''Vacant'', ''Maintenance'']),
      (''Occupied'', [''Dirty'', ''Maintenance'']),
      (''Reserved'', [''Occupied'', ''Vacant'', ''Dirty'', ''Maintenance'']),
      (''Maintenance'', [''Vacant'', ''Dirty''])]"

definition BLOCKED_TRANSITIONS :: "((string \<times> string) \<times> string) list" where
  "BLOCKED_TRANSITIONS =
     [((''Occupied'', ''Vacant''),
         ''Cannot mark occupied room as vacant. Must check out guest first.''),
      ((''Dirty'', ''Occupied''), ''Cannot assign guest to dirty room. Must clean first.''),
      ((''Dirty'', ''Reserved''), ''Cannot reserve dirty room. Must clean first.'')]"

definition RoomStatusValidator_validate_transition :: "string \<Rightarrow> string \<Rightarrow> bool \<times> string" where
  "RoomStatusValidator_validate_transition current_status new_status =
     (case map_of BLOCKED_TRANSITIONS (current_status, new_status) of
        Some why \<Rightarrow> (False, why)
      | None \<Rightarrow>
          (let allowed = get_list VALID_ROOM_TRANSITIONS current_status
           in if new_status \<notin> set allowed
              then (False, ''Cannot transition from '' @ current_status @ '' to '' @ new_status)
              else (True, '''')))"

definition booking_room_id :: "booking \<Rightarrow> nat option" where
  "booking_room_id b = map_option room_id (booking_room b)"

definition check_booking_conflicts :: "db \<Rightarrow> date \<Rightarrow> room \<Rightarrow> string \<Rightarrow> bool \<times> string" where
  "check_booking_conflicts d today r new_st =
     (if new_st = ''Maintenance''
      then (case find (\<lambda>b. booking_room_id b = Some (room_id r) \<and>
                            booking_status b = ''Reserved'' \<and>
                            check_in_date b \<le> today + 7 \<and>
                            check_out_date b \<ge> today) (db_bookings d) of
              Some upcoming \<Rightarrow>
                (False, ''Room has upcoming booking in '' @
                        str_int (check_in_date upcoming - today) @
                        '' days (Guest: '' @ guest_name upcoming @ '')'')
            | None \<Rightarrow> (True, ''''))
      else (True, ''''))"

definition check_housekeeping_conflicts :: "db \<Rightarrow> room \<Rightarrow> string \<Rightarrow> bool \<times> string" where
  "check_housekeeping_conflicts d r new_st =
     (if new_st = ''Vacant''
      then (case find (\<lambda>t. task_room_id t = room_id r \<and> task_status t = ''in_progress'')
                   (db_tasks d) of
              Some in_progress \<Rightarrow> (False, ''Cleaning task in progress. Wait for completion.'')
            | None \<Rightarrow> (True, ''''))
      else (True, ''''))"

definition check_room_service_conflicts :: "db \<Rightarrow> room \<Rightarrow> string \<Rightarrow> bool \<times> string" where
  "check_room_service_conflicts d r new_st =
     (if new_st = ''Vacant''
      then (case find (\<lambda>ord. order_room_id ord = room_id r \<and>
                          order_status ord \<in> set [''pending'', ''preparing'', ''ready'',
                                                    ''out_for_delivery''])
                   (db_room_service_orders d) of
              Some pending \<Rightarrow>
                (False, ''Pending room service order #'' @ str_nat (order_id pending) @
                        ''. Complete or cancel first.'')
            | None \<Rightarrow> (True, ''''))
      else (True, ''''))"

definition check_maintenance_conflicts :: "db \<Rightarrow> room \<Rightarrow> string \<Rightarrow> bool \<times> string" where
  "check_maintenance_conflicts d r new_st =
     (if new_st \<in> set [''Vacant'', ''Occupied'']
      then (case find (\<lambda>i. issue_room_id i = room_id r \<and>
                            issue_status i \<in> set [''reported'', ''in_progress''] \<and>
                            issue_priority i = ''critical'')
                   (db_maintenance_issues d) of
              Some critical \<Rightarrow>
                (False, ''Critical maintenance issue open: '' @ issue_type critical)
            | None \<Rightarrow> (True, ''''))
      else (True, ''''))"

definition comprehensive_validate :: "db \<Rightarrow> date \<Rightarrow> room \<Rightarrow> string \<Rightarrow> bool \<times> string" where
  "comprehensive_validate d today r new_st =
     (case RoomStatusValidator_validate_transition (room_status r) new_st of
        (False, error) \<Rightarrow> (False, error)
      | (True, _) \<Rightarrow>
     (case check_booking_conflicts d today r new_st of
        (False, error) \<Rightarrow> (False, error)
      | (True, _) \<Rightarrow>
     (case check_housekeeping_conflicts d r new_st of
        (False, error) \<Rightarrow> (False, error)
      | (True, _) \<Rightarrow>
     (case check_room_service_conflicts d r new_st of
        (False, error) \<Rightarrow> (False, error)
      | (True, _) \<Rightarrow>
     (case check_maintenance_conflicts d r new_st of
        (False, error) \<Rightarrow> (False, error)
      | (True, _) \<Rightarrow> (True, ''All validations passed''))))))"

definition calculate_daily_revenue_loss :: "room \<Rightarrow> money" where
  "calculate_daily_revenue_loss r =
     (case room_room_type r of
        None \<Rightarrow> 0
      | Some rt \<Rightarrow> quantize_cents (base_price rt * (7 / 10)))"

definition find_account :: "db \<Rightarrow> nat \<Rightarrow> string \<Rightarrow> string \<Rightarrow> chart_of_account option" where
  "find_account d hotel ty name =
     find (\<lambda>a. account_hotel_id a = hotel \<and> account_type a = ty \<and> account_name a = name)
       (db_accounts d)"

text \<open>
  Revenue-loss tracking looks for the hotel's Room Revenue account and, when there is
  one, builds a memorandum entry with a \<open>description\<close> keyword. Every exception of
  that is caught; the handler rolls the session back, which gives the database as it was
  when the unit of work began (\<open>d0\<close>), and the status change goes on.
\<close>

definition start_revenue_loss_tracking :: "db \<Rightarrow> db \<Rightarrow> date \<Rightarrow> room \<Rightarrow> db" where
  "start_revenue_loss_tracking d0 d today r =
     (case find_account d (room_hotel_id r) ''Revenue'' ''Room Revenue'' of
        None \<Rightarrow> d
      | Some revenue_account \<Rightarrow>
          (case JournalEntry (room_hotel_id r) (OOO_ROOM (room_id r) today) today
                  [''description''] of
             Inl m \<Rightarrow> d0
           | Inr memo \<Rightarrow> d\<lparr>db_journal := db_journal d @ [memo]\<rparr>))"

definition stop_revenue_loss_tracking :: "db \<Rightarrow> db \<Rightarrow> date \<Rightarrow> room \<Rightarrow> date \<Rightarrow> db" where
  "stop_revenue_loss_tracking d0 d today r start_date =
     (let end_date = today; days_ooo = end_date - start_date
      in if days_ooo \<le> 0 then d
         else (case find_account d (room_hotel_id r) ''Revenue'' ''Room Revenue'' of
                 None \<Rightarrow> d
               | Some revenue_account \<Rightarrow>
                   (case JournalEntry (room_hotel_id r) (OOO_END (room_id r) end_date) end_date
                           [''description''] of
                      Inl m \<Rightarrow> d0
                    | Inr memo \<Rightarrow> d\<lparr>db_journal := db_journal d @ [memo]\<rparr>)))"

text \<open>
  \<open>RoomNotificationService.notify_status_change\<close>: the notifications go to the user who
  made the change, else to the first user of the hotel, else nowhere.
\<close>

definition notification_drafts ::
  "room \<Rightarrow> string \<Rightarrow> string \<Rightarrow> string \<Rightarrow> (string \<times> message \<times> string \<times> string) list" where
  "notification_drafts r old_st new_st reason =
     (if new_st = ''Dirty''
      then [(''Room '' @ room_number r @ '' Needs Cleaning'',
             Msg (''Room is now dirty. Reason: '' @ reason), ''warning'', ''housekeeping'')]
      else if new_st = ''Vacant'' \<and> old_st = ''Dirty''
      then [(''Room '' @ room_number r @ '' Cleaned'',
             Msg ''Room cleaning completed. Ready for inspection.'', ''success'',
             ''housekeeping'')]
      else []) @
     (if new_st = ''Maintenance''
      then [(''Room '' @ room_number r @ '' Out of Order'',
             Msg (''Room is now OOO. Reason: '' @ reason @ ''. Cannot sell until fixed.''),
             ''danger'', ''operational'')]
      else if new_st = ''Vacant'' \<and> old_st = ''Maintenance''
      then [(''Room '' @ room_number r @ '' Available'',
             Msg ''Room is back in service. Ready for check-in.'', ''success'', ''operational'')]
      else if new_st = ''Vacant''
      then [(''Room '' @ room_number r @ '' Ready for Check-in'',
             Msg ''Room is clean and vacant.'', ''success'', ''operational'')]
      else []) @
     (if new_st = ''Maintenance''
      then [(''Revenue Alert: Room '' @ room_number r @ '' OOO'',
             MsgAmount ''Room out of order. Expected daily revenue loss: ''
               (calculate_daily_revenue_loss r) '''',
             ''warning'', ''financial'')]
      else [])"

definition notify_status_change ::
  "db \<Rightarrow> room \<Rightarrow> string \<Rightarrow> string \<Rightarrow> string \<Rightarrow> nat option \<Rightarrow> db" where
  "notify_status_change d r old_st new_st reason uid =
     (let notif_user_id =
            (case uid of
               Some u \<Rightarrow> if u \<noteq> 0 then Some u
                         else map_option user_id
                                (find (\<lambda>u. user_hotel_id u = room_hotel_id r) (db_users d))
             | None \<Rightarrow> map_option user_id
                         (find (\<lambda>u. user_hotel_id u = room_hotel_id r) (db_users d)))
      in case notif_user_id of
           None \<Rightarrow> d
         | Some u \<Rightarrow>
             if u = 0 then d
             else d\<lparr>db_notifications := db_notifications d @
                    map (\<lambda>(title, msg, color, ty).
                           \<lparr>notification_user_id = u, notification_hotel_id = room_hotel_id r,
                            notification_title = title, notification_message = msg,
                            notification_color = color, notification_type = ty,
                            notification_link = ''/hms/rooms''\<rparr>)
                        (notification_drafts r old_st new_st reason)\<rparr>)"

text \<open>
  \<open>RoomManagementService.change_room_status\<close>; the unit of work is taken to begin with
  the call.
\<close>

definition change_room_status ::
  "db \<Rightarrow> date \<Rightarrow> room \<Rightarrow> string \<Rightarrow> string \<Rightarrow> nat option \<Rightarrow> (bool \<times> string) \<times> room \<times> db" where
  "change_room_status d today r new_st reason uid =
     (case comprehensive_validate d today r new_st of
        (False, error) \<Rightarrow> ((False, ''Validation failed: '' @ error), r, d)
      | (True, _) \<Rightarrow>
          (let old_st = room_status r;
               d1 = (if new_st = ''Maintenance'' \<and> old_st \<noteq> ''Maintenance''
                     then start_revenue_loss_tracking d d today r else d);
               d2 = (if old_st = ''Maintenance'' \<and> new_st \<in> set [''Vacant'', ''Dirty'']
                     then stop_revenue_loss_tracking d d1 today r (today - 1) else d1);
               r' = r\<lparr>room_status := new_st\<rparr>;
               d3 = d2\<lparr>db_history := db_history d2 @
                         [\<lparr>history_hotel_id = room_hotel_id r', history_room_id = room_id r',
                           history_old_status = old_st, history_new_status = new_st\<rparr>]\<rparr>;
               d4 = notify_status_change d3 r' old_st new_st reason uid;
               d5 = (if new_st = ''Dirty'' \<and> old_st = ''Occupied''
                     then d4\<lparr>db_tasks := db_tasks d4 @
                            [\<lparr>task_hotel_id = room_hotel_id r', task_room_id = room_id r',
                              task_type = ''checkout_clean'', task_priority = ''high'',
                              task_status = ''pending'',
                              task_notes = ''Checkout cleaning. Reason: '' @ reason\<rparr>]\<rparr>
                     else d4)
           in ((True, ''Room status changed from '' @ old_st @ '' to '' @ new_st), r', d5)))"

text \<open>The room edges the specification allows: its table without the blocked edges.\<close>

definition room_table_edges :: "(string \<times> string) set" where
  "room_table_edges =
     {(''Vacant'', ''Dirty''), (''Vacant'', ''Reserved''), (''Vacant'', ''Maintenance''),
      (''Vacant'', ''Occupied''),
      (''Dirty'', ''Vacant''), (''Dirty'', ''Maintenance''),
      (''Occupied'', ''Dirty''), (''Occupied'', ''Maintenance''),
      (''Reserved'', ''Occupied''), (''Reserved'', ''Vacant''), (''Reserved'', ''Dirty''),
      (''Reserved'', ''Maintenance''),
      (''Maintenance'', ''Vacant''), (''Maintenance'', ''Dirty'')}"

definition room_blocked_edges :: "(string \<times> string) set" where
  "room_blocked_edges =
     {(''Occupied'', ''Vacant''), (''Dirty'', ''Occupied''), (''Dirty'', ''Reserved'')}"

section \<open>Booking services (app/hms\_booking\_service.py)\<close>

definition CANCELLATION_POLICY :: "(int \<times> money) list" where
  "CANCELLATION_POLICY = [(7, 0), (3, 1 / 2), (0, 1)]"

subsection \<open>RoomStatusService\<close>

definition reserve_room :: "room \<Rightarrow> booking \<Rightarrow> bool \<times> string" where
  "reserve_room r b =
     (if room_status r = ''Occupied'' then (False, ''Cannot reserve an occupied room'')
      else if room_status r = ''Maintenance''
        then (False, ''Cannot reserve a room under maintenance'')
      else (True, ''Room '' @ room_number r @ '' reserved for booking '' @ booking_reference b))"


text \<open>
  \<open>check_out_room\<close> turns every exception of the checkout processing into a failure; the
  one the model has is the missing room. The new task has no id yet when the success text
  is formatted.
\<close>

definition check_out_room ::
  "db \<Rightarrow> room option \<Rightarrow> booking \<Rightarrow> (bool \<times> string) \<times> room option \<times> db" where
  "check_out_room d ro b =
     (case ro of
        None \<Rightarrow>
          ((False, ''Checkout failed: '' @ [CHR 0x27] @ ''NoneType'' @ [CHR 0x27] @
                   '' object has no attribute '' @ [CHR 0x27] @ ''status'' @ [CHR 0x27]),
           None, d)
      | Some r \<Rightarrow>
          (case process_checkout d r of
             (task, r', d') \<Rightarrow>
               ((True, ''Checkout complete. Cleaning task #None created''), Some r', d')))"

definition release_room :: "db \<Rightarrow> room \<Rightarrow> booking \<Rightarrow> (bool \<times> string) \<times> room \<times> db" where
  "release_room d r b =
     (if room_status r = ''Occupied''
      then (case RoomStatusManager_change_status d r ''Dirty'' of
              (_, r', d') \<Rightarrow>
                ((True, ''Room '' @ room_number r' @ '' marked Dirty - requires cleaning''),
                 r', d'))
      else ((True, ''Room '' @ room_number r @ '' released from booking''), r, d))"

subsection \<open>AccountingIntegrationService\<close>

definition create_invoice :: "booking \<Rightarrow> money \<Rightarrow> nat \<Rightarrow> invoice" where
  "create_invoice b total_amt hotel =
     \<lparr>invoice_id = None, invoice_hotel_id = hotel, invoice_booking_id = booking_id b,
      invoice_number = ''INV-'' @ booking_reference b, invoice_total = total_amt,
      invoice_status = ''Unpaid''\<rparr>"

definition fresh_account_id :: "db \<Rightarrow> nat" where
  "fresh_account_id d = Suc (fold max (map account_id (db_accounts d)) 0)"

text \<open>A missing account is created and flushed, which gives it a new id.\<close>

definition add_account :: "db \<Rightarrow> nat \<Rightarrow> string \<Rightarrow> string \<Rightarrow> chart_of_account \<times> db" where
  "add_account d hotel name ty =
     (let a = \<lparr>account_id = fresh_account_id d, account_hotel_id = hotel,
                account_name = name, account_type = ty\<rparr>
      in (a, d\<lparr>db_accounts := db_accounts d @ [a]\<rparr>))"

definition get_or_create_account ::
  "db \<Rightarrow> nat \<Rightarrow> string \<Rightarrow> string \<Rightarrow> chart_of_account \<times> db" where
  "get_or_create_account d hotel ty name =
     (case find_account d hotel ty name of
        Some a \<Rightarrow> (a, d)
      | None \<Rightarrow> add_account d hotel name ty)"

text \<open>
  \<open>create_payment_journal_entry\<close>; \<open>pid\<close> is the id the payment row has got from the
  flush. The entry is built with a \<open>description\<close> keyword and the lines with
  \<open>payment_id\<close> and \<open>invoice_id\<close>; an exception of a constructor leaves the function.
\<close>

definition create_payment_journal_entry ::
  "db \<Rightarrow> date \<Rightarrow> nat \<Rightarrow> payment \<Rightarrow> nat \<Rightarrow> exn + db" where
  "create_payment_journal_entry d today pid p hotel =
     (case get_or_create_account d hotel ''Asset'' ''Cash'' of
        (cash_account, d1) \<Rightarrow>
     (case get_or_create_account d1 hotel ''Revenue'' ''Room Revenue'' of
        (revenue_account, d2) \<Rightarrow>
     (case JournalEntry hotel (PAY pid) today [''description''] of
        Inl m \<Rightarrow> Inl (TypeError m)
      | Inr journal_entry \<Rightarrow>
     (case JournalLine (account_id cash_account) (payment_amount p) 0
             [''payment_id'', ''invoice_id''] of
        Inl m \<Rightarrow> Inl (TypeError m)
      | Inr debit_line \<Rightarrow>
     (case JournalLine (account_id revenue_account) 0 (payment_amount p)
             [''payment_id'', ''invoice_id''] of
        Inl m \<Rightarrow> Inl (TypeError m)
      | Inr credit_line \<Rightarrow>
          Inr (d2\<lparr>db_journal := db_journal d2 @
                     [journal_entry\<lparr>entry_lines := [debit_line, credit_line]\<rparr>]\<rparr>))))))"

definition invoice_payments :: "booking \<Rightarrow> invoice \<Rightarrow> payment list" where
  "invoice_payments b invc =
     filter (\<lambda>p. invoice_id invc \<noteq> None \<and> payment_invoice_id p = invoice_id invc)
       (booking_payments b)"

definition record_payment ::
  "db \<Rightarrow> date \<Rightarrow> nat \<Rightarrow> booking \<Rightarrow> money \<Rightarrow> string \<Rightarrow> exn + (payment \<times> booking \<times> db)" where
  "record_payment d today pid b amount method =
     (case booking_invoice b of
        None \<Rightarrow> Inl ValueError
      | Some invc \<Rightarrow>
          (let p = \<lparr>payment_hotel_id = booking_hotel_id b, payment_invoice_id = invoice_id invc,
                    payment_booking_id = booking_id b, payment_amount = amount,
                    payment_method = method, payment_notes = None, payment_deleted = False\<rparr>;
               b1 = b\<lparr>booking_payments := booking_payments b @ [p]\<rparr>
           in case create_payment_journal_entry d today pid p (booking_hotel_id b) of
                Inl e \<Rightarrow> Inl e
              | Inr d1 \<Rightarrow>
                  (let paid = sum_list (map payment_amount
                                (filter (\<lambda>q. \<not> payment_deleted q) (invoice_payments b1 invc)));
                       invc1 = invc\<lparr>invoice_status :=
                                 (if paid \<ge> invoice_total invc then ''Paid''
                                  else ''PartiallyPaid'')\<rparr>;
                       b2 = calculate_balance (b1\<lparr>booking_invoice := Some invc1\<rparr>)
                   in Inr (p, b2, d1))))"

text \<open>
  \<open>process_refund\<close>; \<open>rid\<close> is the id of the refund row and \<open>reason\<close> the text
  of its note. The reversing entry is attempted only when both accounts exist, and is
  built with a \<open>description\<close> keyword and lines with \<open>payment_id\<close> and \<open>invoice_id\<close>.
\<close>

definition process_refund ::
  "db \<Rightarrow> date \<Rightarrow> nat \<Rightarrow> booking \<Rightarrow> money \<Rightarrow> message \<Rightarrow>
     exn + (payment \<times> booking \<times> db)" where
  "process_refund d today rid b amount reason =
     (case booking_invoice b of
        None \<Rightarrow> Inl ValueError
      | Some invc \<Rightarrow>
          (let refund = \<lparr>payment_hotel_id = booking_hotel_id b,
                         payment_invoice_id = invoice_id invc,
                         payment_booking_id = booking_id b, payment_amount = - \<bar>amount\<bar>,
                         payment_method = ''Refund'',
                         payment_notes = Some (prefix_message ''Refund: '' reason),
                         payment_deleted = False\<rparr>;
               b1 = b\<lparr>booking_payments := booking_payments b @ [refund]\<rparr>
           in case (case (find_account d (booking_hotel_id b) ''Revenue'' ''Room Revenue'',
                          find_account d (booking_hotel_id b) ''Asset'' ''Cash'') of
                      (Some revenue_account, Some cash_account) \<Rightarrow>
                        (case JournalEntry (booking_hotel_id b) (REFUND rid) today
                                [''description''] of
                           Inl m \<Rightarrow> Inl (TypeError m)
                         | Inr journal_entry \<Rightarrow>
                        (case JournalLine (account_id revenue_account) \<bar>amount\<bar> 0
                                [''payment_id'', ''invoice_id''] of
                           Inl m \<Rightarrow> Inl (TypeError m)
                         | Inr debit_line \<Rightarrow>
                        (case JournalLine (account_id cash_account) 0 \<bar>amount\<bar>
                                [''payment_id'', ''invoice_id''] of
                           Inl m \<Rightarrow> Inl (TypeError m)
                         | Inr credit_line \<Rightarrow>
                             Inr (d\<lparr>db_journal := db_journal d @
                                    [journal_entry\<lparr>entry_lines :=
                                       [debit_line, credit_line]\<rparr>]\<rparr>))))
                    | _ \<Rightarrow> Inr d) of
                Inl e \<Rightarrow> Inl e
              | Inr d1 \<Rightarrow> Inr (refund, calculate_balance b1, d1)))"

text \<open>
  \<open>post_cancellation_fee\<close>: the fee becomes a payment row of the booking with a positive
  amount and is added to the invoice total; the invoice status is set from the balance
  as it was before the recomputation.
\<close>

definition post_cancellation_fee :: "booking \<Rightarrow> money \<Rightarrow> exn + (payment \<times> booking)" where
  "post_cancellation_fee b fee_amount =
     (case booking_invoice b of
        None \<Rightarrow> Inl ValueError
      | Some invc \<Rightarrow>
          (let fee_payment = \<lparr>payment_hotel_id = booking_hotel_id b,
                              payment_invoice_id = invoice_id invc,
                              payment_booking_id = booking_id b, payment_amount = fee_amount,
                              payment_method = ''Cancellation Fee'',
                              payment_notes = Some (Msg ''Cancellation fee charged''),
                              payment_deleted = False\<rparr>;
               invc1 = invc\<lparr>invoice_total := invoice_total invc + fee_amount,
                          invoice_status := (if balance b > 0 then ''Unpaid'' else ''Paid'')\<rparr>;
               b1 = b\<lparr>booking_payments := booking_payments b @ [fee_payment],
                      booking_invoice := Some invc1\<rparr>
           in Inr (fee_payment, calculate_balance b1)))"

subsection \<open>BookingService\<close>

definition overlapping :: "db \<Rightarrow> nat \<Rightarrow> room \<Rightarrow> date \<Rightarrow> date \<Rightarrow> booking option" where
  "overlapping d hotel r ci co =
     find (\<lambda>b. booking_room_id b = Some (room_id r) \<and> booking_hotel_id b = hotel \<and>
               booking_status b \<in> set [''Reserved'', ''CheckedIn''] \<and>
               check_in_date b < co \<and> check_out_date b > ci) (db_bookings d)"

definition or_empty :: "string option \<Rightarrow> string" where
  "or_empty s = (case s of None \<Rightarrow> [] | Some t \<Rightarrow> t)"

definition fresh_booking_id :: "db \<Rightarrow> nat" where
  "fresh_booking_id d = Suc (fold max (map booking_id (db_bookings d)) 0)"

text \<open>
  \<open>create_booking\<close>; \<open>ref\<close> is the generated booking reference. The new row gets its id
  from the flush and the column defaults for the amounts it does not set. When the room
  cannot be reserved the session is rolled back.
\<close>

definition create_booking ::
  "db \<Rightarrow> nat \<Rightarrow> guest \<Rightarrow> room \<Rightarrow> date \<Rightarrow> date \<Rightarrow> int \<Rightarrow> int \<Rightarrow> string \<Rightarrow> string \<Rightarrow> string \<Rightarrow>
     exn + ((booking option \<times> string) \<times> db)" where
  "create_booking d hotel g r ci co n_adults n_children requests src ref =
     (if co \<le> ci then Inr ((None, ''Check-out date must be after check-in date''), d)
      else case overlapping d hotel r ci co of
        Some overlap \<Rightarrow> Inr ((None, ''Room is already booked for these dates''), d)
      | None \<Rightarrow>
          (case room_room_type r of
             None \<Rightarrow> Inl AttributeError
           | Some rt \<Rightarrow>
               (let nights = co - ci;
                    total = base_price rt * of_int nights;
                    b = \<lparr>booking_id = fresh_booking_id d, booking_hotel_id = hotel,
                         guest_id = Some (g_id g), guest_name = g_name g,
                         guest_email = or_empty (g_email g), guest_phone = or_empty (g_phone g),
                         adults = n_adults, children = n_children,
                         special_requests = requests, source = src,
                         booking_reference = ref, booking_room = Some r,
                         check_in_date = ci, check_out_date = co,
                         check_in_time_actual = None, check_out_time_actual = None,
                         booking_status = ''Reserved'', total_amount = total,
                         amount_paid = 0, balance = 0,
                         cancelled_at = None, cancellation_reason = None,
                         booking_invoice = None, booking_payments = []\<rparr>
                in case reserve_room r b of
                     (False, msg) \<Rightarrow> Inr ((None, msg), d)
                   | (True, _) \<Rightarrow>
                       (let b' = b\<lparr>booking_invoice := Some (create_invoice b total hotel)\<rparr>
                        in Inr ((Some b', ''Booking created successfully''),
                                d\<lparr>db_bookings := db_bookings d @ [b']\<rparr>)))))"


definition check_out :: "db \<Rightarrow> timestamp \<Rightarrow> booking \<Rightarrow> (bool \<times> message) \<times> booking \<times> db" where
  "check_out d now b =
     (if booking_status b \<noteq> ''CheckedIn''
      then ((False, Msg (''Cannot check out booking with status '' @ booking_status b)), b, d)
      else let b0 = calculate_balance b
           in if balance b0 > 0
              then ((False, MsgAmount ''Outstanding balance: '' (balance b0)
                              ''. Please collect payment before checkout.''), b0, d)
              else (case BookingStateMachine_change_status now b0 ''CheckedOut''
                           (Some ''Guest check-out'') of
                      (False, msg, _) \<Rightarrow> ((False, Msg msg), b0, d)
                    | (True, _, b1) \<Rightarrow>
                        (case check_out_room d (booking_room b1) b1 of
                           ((False, msg), ro, d') \<Rightarrow>
                             ((False, Msg msg),
                              b1\<lparr>booking_status := ''CheckedIn'', booking_room := ro\<rparr>, d')
                         | ((True, _), ro, d') \<Rightarrow>
                             ((True, Msg ''Guest checked out successfully''),
                              b1\<lparr>booking_room := ro\<rparr>, d'))))"

text \<open>The fee tier: the first policy row whose day count the booking reaches.\<close>

definition fee_percent_for :: "int \<Rightarrow> money" where
  "fee_percent_for days_until_checkin =
     (case find (\<lambda>(days_before, fee_percent). days_until_checkin \<ge> days_before)
             CANCELLATION_POLICY of
        Some (days_before, fee_percent) \<Rightarrow> fee_percent
      | None \<Rightarrow> 1)"

text \<open>
  \<open>cancel_booking\<close>; \<open>rid\<close> is the id a refund row would get. An exception leaves the
  unit of work to the caller, which rolls it back.
\<close>

definition cancel_booking ::
  "db \<Rightarrow> date \<Rightarrow> timestamp \<Rightarrow> nat \<Rightarrow> booking \<Rightarrow> string \<Rightarrow>
     exn + ((bool \<times> message) \<times> booking \<times> db)" where
  "cancel_booking d today now rid b reason =
     (if booking_status b \<noteq> ''Reserved''
      then Inr ((False, Msg (''Cannot cancel booking with status '' @ booking_status b)), b, d)
      else
        let days_until_checkin = check_in_date b - today;
            fee_percent = fee_percent_for days_until_checkin;
            cancellation_fee = total_amount b * fee_percent
        in case BookingStateMachine_change_status now b ''Cancelled'' (Some reason) of
             (False, msg, _) \<Rightarrow> Inr ((False, Msg msg), b, d)
           | (True, _, b1) \<Rightarrow>
               (case (if cancellation_fee > 0
                      then map_sum id snd (post_cancellation_fee b1 cancellation_fee)
                      else Inr b1) of
                  Inl e \<Rightarrow> Inl e
                | Inr b2 \<Rightarrow>
                    (let b3 = calculate_balance b2
                     in case (if balance b3 < 0
                              then map_sum id snd
                                     (process_refund d today rid b3 \<bar>balance b3\<bar>
                                        (MsgAmount ''Cancellation refund (fee: ''
                                           cancellation_fee '')''))
                              else Inr (b3, d)) of
                          Inl e \<Rightarrow> Inl e
                        | Inr (b4, d1) \<Rightarrow>
                            (case booking_room b4 of
                               None \<Rightarrow> Inl AttributeError
                             | Some r \<Rightarrow>
                                 (case release_room d1 r b4 of
                                    (_, r', d2) \<Rightarrow>
                                      Inr ((True, MsgAmount ''Booking cancelled. Cancellation fee: ''
                                                    cancellation_fee []),
                                           b4\<lparr>booking_room := Some r'\<rparr>, d2))))))"

section \<open>Night audit (run\_night\_audit, app/hms/routes.py)\<close>

text \<open>
  The handler's answer is the list of flashed messages, each with its category, and the
  endpoint it redirects to. The readings of the clock within one request are one value.
\<close>

type_synonym response = "(message \<times> string) list \<times> string"

definition get_or_create_business_date :: "db \<Rightarrow> nat \<Rightarrow> date \<Rightarrow> business_date \<times> db" where
  "get_or_create_business_date d h today =
     (case find (\<lambda>bd. business_date_hotel_id bd = h) (db_business_dates d) of
        Some bd \<Rightarrow> (bd, d)
      | None \<Rightarrow>
          (let bd = \<lparr>business_date_hotel_id = h, current_business_date = today,
                     is_closed = False, business_date_updated_at = None\<rparr>
           in (bd, d\<lparr>db_business_dates := db_business_dates d @ [bd]\<rparr>)))"

text \<open>Writing to the row a \<open>.first()\<close> query returned: the first row passing the filter.\<close>

fun update_first :: "('a \<Rightarrow> bool) \<Rightarrow> ('a \<Rightarrow> 'a) \<Rightarrow> 'a list \<Rightarrow> 'a list" where
  "update_first P f [] = []"
| "update_first P f (x # xs) = (if P x then f x # xs else x # update_first P f xs)"

definition find_account_by_name :: "db \<Rightarrow> nat \<Rightarrow> string \<Rightarrow> chart_of_account option" where
  "find_account_by_name d h name =
     find (\<lambda>a. account_hotel_id a = h \<and> account_name a = name) (db_accounts d)"

text \<open>
  The \<open>try\<close> body of the charging loop for one booking. The charge is made when the
  booking has a room with a room type, the rate is positive and the booking has an
  invoice; otherwise the booking is passed over. The invoice total, the invoice status
  and the balance are written first; then the journal entry is built, with a
  \<open>description\<close> keyword, and its two lines. The result is the booking as the body
  leaves it, and either the message of the exception that ended the body, or the entry
  and the rate when a charge was made.
\<close>

definition charge_room ::
  "nat \<Rightarrow> date \<Rightarrow> chart_of_account \<Rightarrow> chart_of_account \<Rightarrow> booking \<Rightarrow>
     booking \<times> (string + (journal_entry \<times> money) option)" where
  "charge_room h today ar_account room_revenue_account b =
     (case booking_room b of
        None \<Rightarrow> (b, Inr None)
      | Some r \<Rightarrow>
          (case room_room_type r of
             None \<Rightarrow> (b, Inr None)
           | Some rt \<Rightarrow>
               (let room_rate = (if base_price rt \<noteq> 0 then base_price rt else 0)
                in if room_rate > 0
                   then (case booking_invoice b of
                           None \<Rightarrow> (b, Inr None)
                         | Some invc \<Rightarrow>
                             (let b1 = b\<lparr>booking_invoice :=
                                           Some (invc\<lparr>invoice_total :=
                                                        invoice_total invc + room_rate,
                                                      invoice_status := ''Unpaid''\<rparr>),
                                         balance := balance b + room_rate\<rparr>
                              in case JournalEntry h NoReference today [''description''] of
                                   Inl m \<Rightarrow> (b1, Inl m)
                                 | Inr journal \<Rightarrow>
                                (case JournalLine (account_id ar_account) room_rate 0 [] of
                                   Inl m \<Rightarrow> (b1, Inl m)
                                 | Inr debit_line \<Rightarrow>
                                (case JournalLine (account_id room_revenue_account) 0
                                        room_rate [] of
                                   Inl m \<Rightarrow> (b1, Inl m)
                                 | Inr credit_line \<Rightarrow>
                                     (b1, Inr (Some (journal\<lparr>entry_lines :=
                                                        [debit_line, credit_line]\<rparr>,
                                                     room_rate)))))))
                   else (b, Inr None))))"

text \<open>
  The loop over the bookings of the hotel that are CheckedIn, in table order, with its
  \<open>except\<close> clause: an exception of the body is recorded as an error of the room and
  the loop goes on. It gives the bookings as they are afterwards, the entries written,
  the revenue posted, the number of rooms charged and the errors.
\<close>

fun charge_occupied ::
  "nat \<Rightarrow> date \<Rightarrow> chart_of_account \<Rightarrow> chart_of_account \<Rightarrow> booking list \<Rightarrow>
     booking list \<times> journal_entry list \<times> money \<times> nat \<times> string list" where
  "charge_occupied h today ar rr [] = ([], [], 0, 0, [])"
| "charge_occupied h today ar rr (b # bs) =
     (case charge_occupied h today ar rr bs of
        (bs', es, revenue_posted, rooms_charged, errors) \<Rightarrow>
          if booking_hotel_id b = h \<and> booking_status b = ''CheckedIn''
          then (case charge_room h today ar rr b of
                  (b', Inr (Some (e, room_rate))) \<Rightarrow>
                    (b' # bs', e # es, room_rate + revenue_posted, Suc rooms_charged, errors)
                | (b', Inr None) \<Rightarrow> (b' # bs', es, revenue_posted, rooms_charged, errors)
                | (b', Inl m) \<Rightarrow>
                    (b' # bs', es, revenue_posted, rooms_charged,
                     (''Error charging room '' @
                      (case booking_room b of Some r \<Rightarrow> room_number r | None \<Rightarrow> ''Unknown'') @
                      '': '' @ m) # errors))
          else (b # bs', es, revenue_posted, rooms_charged, errors))"

definition audit_warnings :: "nat \<Rightarrow> nat \<Rightarrow> nat \<Rightarrow> string list" where
  "audit_warnings unpaid_bookings pending_orders checked_in =
     (if unpaid_bookings > 0
      then [str_nat unpaid_bookings @ '' bookings have outstanding balance''] else []) @
     (if pending_orders > 0
      then [str_nat pending_orders @ '' restaurant orders still pending''] else []) @
     (if checked_in > 0 then [str_nat checked_in @ '' guests still checked in''] else [])"

text \<open>The errors as one text, a line feed between two of them.\<close>

fun join_lines :: "string list \<Rightarrow> string" where
  "join_lines [] = []"
| "join_lines [x] = x"
| "join_lines (x # y # zs) = x @ [CHR 0x0A] @ join_lines (y # zs)"

text \<open>
  The messages of a run that went through: the success messages, the warnings, the
  errors of the rooms, and the error message of the handler's \<open>except\<close> branch.
\<close>

definition completion_flashes ::
  "date \<Rightarrow> money \<Rightarrow> nat \<Rightarrow> string list \<Rightarrow> string list \<Rightarrow> (message \<times> string) list" where
  "completion_flashes today revenue_posted rooms_charged warnings errors =
     [(Msg '' Night audit completed successfully!'', ''success''),
      (MsgDate '' Business day CLOSED for '' today, ''info''),
      (MsgDate '' New business date: '' (today + 1), ''info''),
      (MsgAmount '' Room revenue posted: $'' revenue_posted
         ('' from '' @ str_nat rooms_charged @ '' rooms''), ''success'')] @
     map (\<lambda>w. (Msg ('' '' @ w), ''warning'')) warnings @
     map (\<lambda>e. (Msg ('' '' @ e), ''danger'')) errors @
     [(Msg '' Error running night audit. Please check logs.'', ''danger'')]"

text \<open>
  \<open>run_night_audit\<close>. After the commit of a completed run the handler builds its JSON
  answer, where \<open>timedelta(days=1).strftime\<close> raises AttributeError; the handler's
  \<open>except\<close> branch then marks the audit log failed, commits again, flashes an error and
  redirects. The changes of the run, with those the charging loop made to a booking
  before an exception of its body, are committed before that. The summary of the
  log keeps the revenue as the exact amount, where the source converts it to a float.
\<close>

definition run_night_audit ::
  "db \<Rightarrow> nat option \<Rightarrow> date \<Rightarrow> timestamp \<Rightarrow> nat \<Rightarrow> response \<times> db" where
  "run_night_audit d hotel today now run_by =
     (case (case hotel of None \<Rightarrow> None | Some h \<Rightarrow> if h = 0 then None else Some h) of
        None \<Rightarrow> (([(Msg ''Please select a hotel first.'', ''warning'')], ''hms.dashboard''), d)
      | Some h \<Rightarrow>
     (case get_or_create_business_date d h today of
        (biz_date, d1) \<Rightarrow>
          (let unpaid_bookings =
                 length (filter (\<lambda>b. booking_hotel_id b = h \<and> check_in_date b = today \<and>
                                      balance b > 0) (db_bookings d1));
               pending_orders =
                 length (filter (\<lambda>ord. restaurant_order_hotel_id ord = h \<and>
                                        restaurant_order_status ord = ''pending'')
                           (db_restaurant_orders d1));
               checked_in =
                 length (filter (\<lambda>b. booking_hotel_id b = h \<and> booking_status b = ''CheckedIn'')
                           (db_bookings d1));
               warnings = audit_warnings unpaid_bookings pending_orders checked_in;
               audit_log = \<lparr>log_hotel_id = h, log_audit_date = today, log_run_by = run_by,
                             log_started_at = now, log_completed_at = None,
                             log_status = ''running'', log_summary = None, log_errors = None,
                             log_notes = None\<rparr>
           in if is_closed biz_date
              then (([(Msg ''Business day is already closed and locked.'', ''warning'')],
                     ''hms.night_audit''),
                    d1\<lparr>db_audit_logs := db_audit_logs d1 @
                         [audit_log\<lparr>log_status := ''failed'',
                                    log_errors := Some ''Day already closed'',
                                    log_completed_at := Some now\<rparr>]\<rparr>)
              else
     (case (case find_account_by_name d1 h ''Room Revenue'' of
              Some a \<Rightarrow> (a, d1)
            | None \<Rightarrow> add_account d1 h ''Room Revenue'' ''Revenue'') of
        (room_revenue_account, d2) \<Rightarrow>
     (case (case find_account_by_name d2 h ''Accounts Receivable'' of
              Some a \<Rightarrow> (a, d2)
            | None \<Rightarrow> add_account d2 h ''Accounts Receivable'' ''Asset'') of
        (ar_account, d3) \<Rightarrow>
     (case charge_occupied h today ar_account room_revenue_account (db_bookings d3) of
        (bookings', entries, revenue_posted, rooms_charged, errors) \<Rightarrow>
          (let d4 = d3\<lparr>db_bookings := bookings',
                       db_journal := db_journal d3 @ entries,
                       db_business_dates :=
                         update_first (\<lambda>bd. business_date_hotel_id bd = h)
                           (\<lambda>bd. bd\<lparr>is_closed := True, current_business_date := today + 1,
                                     business_date_updated_at := Some now\<rparr>)
                           (db_business_dates d3)\<rparr>;
               completed = audit_log
                 \<lparr>log_status := (if errors = [] then ''success'' else ''partial''),
                  log_completed_at := Some now,
                  log_summary := Some \<lparr>summary_unpaid_bookings = unpaid_bookings,
                                        summary_pending_orders = pending_orders,
                                        summary_checked_in_guests = checked_in,
                                        summary_rooms_charged = rooms_charged,
                                        summary_revenue_posted = revenue_posted,
                                        summary_warnings = warnings, summary_errors = errors\<rparr>,
                  log_notes := Some (today + 1, revenue_posted, rooms_charged),
                  log_errors := (if errors = [] then None else Some (join_lines errors))\<rparr>;
               failed = completed
                 \<lparr>log_status := ''failed'',
                  log_errors := Some ([CHR 0x27] @ ''datetime.timedelta'' @ [CHR 0x27] @
                                      '' object has no attribute '' @ [CHR 0x27] @
                                      ''strftime'' @ [CHR 0x27]),
                  log_completed_at := Some now\<rparr>
           in ((completion_flashes today revenue_posted rooms_charged warnings errors,
                ''hms.night_audit''),
               d4\<lparr>db_audit_logs := db_audit_logs d4 @ [failed]\<rparr>))))))))"

text \<open>The audit log row of a run that was turned away because the day is closed.\<close>

definition rejected_log :: "nat \<Rightarrow> date \<Rightarrow> timestamp \<Rightarrow> nat \<Rightarrow> night_audit_log" where
  "rejected_log h today now run_by =
     \<lparr>log_hotel_id = h, log_audit_date = today, log_run_by = run_by,
      log_started_at = now, log_completed_at = Some now, log_status = ''failed'',
      log_summary = None, log_errors = Some ''Day already closed'', log_notes = None\<rparr>"




subsection \<open>What the night audit does to a booking, in words\<close>

text \<open>
  The audit of hotel \<open>h\<close> charges a booking when it belongs to the hotel, is
  CheckedIn, has a room with a room type of positive base price, and has an invoice.
\<close>

definition has_rate_and_invoice :: "booking \<Rightarrow> bool" where
  "has_rate_and_invoice b =
     ((case booking_room b of
         None \<Rightarrow> False
       | Some r \<Rightarrow> (case room_room_type r of None \<Rightarrow> False | Some rt \<Rightarrow> 0 < base_price rt)) \<and>
      booking_invoice b \<noteq> None)"

definition chargeable :: "nat \<Rightarrow> booking \<Rightarrow> bool" where
  "chargeable h b =
     (booking_hotel_id b = h \<and> booking_status b = ''CheckedIn'' \<and> has_rate_and_invoice b)"

text \<open>One night's rate of a booking: the base price of the type of its room.\<close>

definition room_rate_of :: "booking \<Rightarrow> money" where
  "room_rate_of b =
     (case booking_room b of
        None \<Rightarrow> 0
      | Some r \<Rightarrow> (case room_room_type r of None \<Rightarrow> 0 | Some rt \<Rightarrow> base_price rt))"

text \<open>The booking after the charge: invoice total and balance raised by the rate.\<close>

definition charged :: "booking \<Rightarrow> booking" where
  "charged b =
     b\<lparr>booking_invoice :=
          map_option (\<lambda>i. i\<lparr>invoice_total := invoice_total i + room_rate_of b,
                              invoice_status := ''Unpaid''\<rparr>) (booking_invoice b),
       balance := balance b + room_rate_of b\<rparr>"

text \<open>The error the charging loop records for a booking whose charge it could not post.\<close>

definition charge_error :: "booking \<Rightarrow> string" where
  "charge_error b =
     ''Error charging room '' @
     (case booking_room b of Some r \<Rightarrow> room_number r | None \<Rightarrow> ''Unknown'') @
     '': '' @ invalid_keyword ''description'' ''JournalEntry''"

section \<open>Example data\<close>

definition example_room_type :: room_type where
  "example_room_type = \<lparr>rt_name = ''Standard'', base_price = 50000\<rparr>"

definition example_room :: room where
  "example_room =
     \<lparr>room_id = 7, room_hotel_id = 1, room_number = ''101'', room_status = ''Vacant'',
      room_room_type = Some example_room_type\<rparr>"

definition occupied_room :: room where
  "occupied_room = example_room\<lparr>room_status := ''Occupied''\<rparr>"

definition example_invoice :: invoice where
  "example_invoice =
     \<lparr>invoice_id = Some 3, invoice_hotel_id = 1, invoice_booking_id = 1,
      invoice_number = ''INV-NGD-1'', invoice_total = 200000, invoice_status = ''Unpaid''\<rparr>"

text \<open>A Reserved booking for days 10 to 12, total 200,000, nothing paid.\<close>

definition example_booking :: booking where
  "example_booking =
     \<lparr>booking_id = 1, booking_hotel_id = 1, guest_id = Some 1, guest_name = ''Asha'',
      guest_email = [], guest_phone = [], adults = 1, children = 0,
      special_requests = [], source = ''front_desk'', booking_reference = ''NGD-1'',
      booking_room = Some example_room, check_in_date = 10, check_out_date = 12,
      check_in_time_actual = None, check_out_time_actual = None,
      booking_status = ''Reserved'', total_amount = 200000, amount_paid = 0, balance = 0,
      cancelled_at = None, cancellation_reason = None,
      booking_invoice = Some example_invoice, booking_payments = []\<rparr>"

definition example_payment :: payment where
  "example_payment =
     \<lparr>payment_hotel_id = 1, payment_invoice_id = Some 3, payment_booking_id = 1,
      payment_amount = 200000, payment_method = ''Bank Transfer'', payment_notes = None,
      payment_deleted = False\<rparr>"

text \<open>The fee row a cancellation of the example booking writes.\<close>

definition fee_payment_200000 :: payment where
  "fee_payment_200000 =
     \<lparr>payment_hotel_id = 1, payment_invoice_id = Some 3, payment_booking_id = 1,
      payment_amount = 200000, payment_method = ''Cancellation Fee'',
      payment_notes = Some (Msg ''Cancellation fee charged''), payment_deleted = False\<rparr>"

definition paid_booking :: booking where
  "paid_booking = example_booking\<lparr>booking_payments := [example_payment]\<rparr>"

definition checked_in_booking :: booking where
  "checked_in_booking =
     example_booking\<lparr>booking_status := ''CheckedIn'', check_in_time_actual := Some 4,
                      booking_room := Some occupied_room\<rparr>"

definition settled_booking :: booking where
  "settled_booking = checked_in_booking\<lparr>booking_payments := [example_payment]\<rparr>"


definition example_guest :: guest where
  "example_guest = \<lparr>g_id = 1, g_name = ''Asha'', g_email = None, g_phone = Some ''0700''\<rparr>"

definition empty_db :: db where
  "empty_db =
     \<lparr>db_bookings = [], db_tasks = [], db_room_service_orders = [],
      db_maintenance_issues = [], db_restaurant_orders = [], db_users = [],
      db_history = [], db_notifications = [], db_accounts = [], db_journal = [],
      db_business_dates = [], db_audit_logs = []\<rparr>"

text \<open>A chart with Cash (1), Room Revenue (2) and Accounts Receivable (3) for hotel 1.\<close>

definition ledger_db :: db where
  "ledger_db =
     empty_db\<lparr>db_accounts :=
       [\<lparr>account_id = 1, account_hotel_id = 1, account_name = ''Cash'',
         account_type = ''Asset''\<rparr>,
        \<lparr>account_id = 2, account_hotel_id = 1, account_name = ''Room Revenue'',
         account_type = ''Revenue''\<rparr>,
        \<lparr>account_id = 3, account_hotel_id = 1, account_name = ''Accounts Receivable'',
         account_type = ''Asset''\<rparr>]\<rparr>"

definition open_date :: business_date where
  "open_date =
     \<lparr>business_date_hotel_id = 1, current_business_date = 100, is_closed = False,
      business_date_updated_at = None\<rparr>"

text \<open>Hotel 1 with one CheckedIn booking at the rate 50,000 and an open business date.\<close>

definition audit_db :: db where
  "audit_db = ledger_db\<lparr>db_bookings := [checked_in_booking], db_business_dates := [open_date]\<rparr>"

definition closed_db :: db where
  "closed_db = audit_db\<lparr>db_business_dates := [open_date\<lparr>is_closed := True\<rparr>]\<rparr>"

text \<open>
  Hotel 1 on the night of its first audit: one CheckedIn booking at the rate 50,000, no
  business date row yet, no accounts, an empty journal.
\<close>

definition first_night_db :: db where
  "first_night_db = empty_db\<lparr>db_bookings := [checked_in_booking]\<rparr>"

section \<open>The booking state machine is strictly forward\<close>

lemma BookingStateMachine_validate_transition_iff:
  "fst (BookingStateMachine_validate_transition c n) \<longleftrightarrow> (c, n) \<in> booking_edges"
  by (auto simp: BookingStateMachine_validate_transition_def get_list_def
      BOOKING_STATUS_TRANSITIONS_def booking_edges_def Let_def)

lemma BookingStateMachine_validate_transition_reason:
  "\<not> fst (BookingStateMachine_validate_transition c n) \<Longrightarrow>
   snd (BookingStateMachine_validate_transition c n) \<noteq> []"
  by (auto simp: BookingStateMachine_validate_transition_def Let_def split: if_splits)

lemma BookingStateMachine_change_status_status:
  "booking_status (snd (snd (BookingStateMachine_change_status now b n r))) =
     (if (booking_status b, n) \<in> booking_edges then n else booking_status b)"
proof (cases "BookingStateMachine_validate_transition (booking_status b) n")
  case (Pair ok msg)
  with BookingStateMachine_validate_transition_iff [of "booking_status b" n]
  show ?thesis
    by (cases ok) (auto simp: BookingStateMachine_change_status_def Let_def)
qed

lemma change_status_not_reserved:
  "booking_status b \<noteq> ''Reserved'' \<Longrightarrow>
   booking_status (snd (snd (BookingStateMachine_change_status now b n r))) \<noteq> ''Reserved''"
  by (auto simp: BookingStateMachine_change_status_status booking_edges_def)

lemma change_status_seq_not_reserved:
  "booking_status b \<noteq> ''Reserved'' \<Longrightarrow>
   booking_status (change_status_seq b reqs) \<noteq> ''Reserved''"
proof (induction reqs arbitrary: b)
  case Nil
  then show ?case by simp
next
  case (Cons q reqs)
  obtain now n r where q: "q = (now, n, r)" by (cases q)
  from Cons.prems
  have "booking_status (snd (snd (BookingStateMachine_change_status now b n r))) \<noteq> ''Reserved''"
    by (rule change_status_not_reserved)
  then show ?case unfolding q by (simp add: Cons.IH)
qed

lemma change_status_fails_unchanged:
  "\<not> fst (BookingStateMachine_validate_transition (booking_status b) n) \<Longrightarrow>
   BookingStateMachine_change_status now b n r =
     (False, snd (BookingStateMachine_validate_transition (booking_status b) n), b)"
  by (cases "BookingStateMachine_validate_transition (booking_status b) n")
     (auto simp: BookingStateMachine_change_status_def)

text \<open>
  C2. The validator accepts exactly the edges Reserved\<rightarrow>{CheckedIn, Cancelled, NoShow} and
  CheckedIn\<rightarrow>{CheckedOut}. It rejects every same-state request; every rejection comes with
  a non-empty reason, and the status change built on the validator then leaves the booking
  as it is. CheckedOut, Cancelled and NoShow have no way out. Hence, under any sequence of
  requested status changes, a booking that has left Reserved is never Reserved again.
\<close>

theorem booking_status_strictly_forward:
  "(fst (BookingStateMachine_validate_transition c n) \<longleftrightarrow> (c, n) \<in> booking_edges) \<and>
   \<not> fst (BookingStateMachine_validate_transition c c) \<and>
   (\<not> fst (BookingStateMachine_validate_transition c n) \<longrightarrow>
      snd (BookingStateMachine_validate_transition c n) \<noteq> [] \<and>
      (booking_status b = c \<longrightarrow>
         BookingStateMachine_change_status now b n r =
           (False, snd (BookingStateMachine_validate_transition c n), b))) \<and>
   (c \<in> {''CheckedOut'', ''Cancelled'', ''NoShow''} \<longrightarrow>
      \<not> fst (BookingStateMachine_validate_transition c n)) \<and>
   (booking_status b \<noteq> ''Reserved'' \<longrightarrow>
      booking_status (change_status_seq b reqs) \<noteq> ''Reserved'')"
proof -
  have 1: "fst (BookingStateMachine_validate_transition c n) \<longleftrightarrow> (c, n) \<in> booking_edges"
    by (rule BookingStateMachine_validate_transition_iff)
  have 2: "\<not> fst (BookingStateMachine_validate_transition c c)"
    by (simp add: BookingStateMachine_validate_transition_def)
  have 4: "c \<in> {''CheckedOut'', ''Cancelled'', ''NoShow''} \<longrightarrow>
      \<not> fst (BookingStateMachine_validate_transition c n)"
    by (auto simp: BookingStateMachine_validate_transition_iff booking_edges_def)
  show ?thesis
    using 1 2 4 BookingStateMachine_validate_transition_reason [of c n]
      change_status_fails_unchanged [of b n now r]
      change_status_seq_not_reserved [of b reqs]
    by blast
qed

theorem booking_status_strictly_forward_witness:
  "\<not> fst (BookingStateMachine_validate_transition ''CheckedIn'' ''Reserved'') \<and>
   snd (BookingStateMachine_validate_transition ''CheckedIn'' ''Reserved'') \<noteq> [] \<and>
   BookingStateMachine_change_status 5 checked_in_booking ''Reserved'' None =
     (False, snd (BookingStateMachine_validate_transition ''CheckedIn'' ''Reserved''), checked_in_booking) \<and>
   ''Cancelled'' \<in> {''CheckedOut'', ''Cancelled'', ''NoShow''} \<and>
   \<not> fst (BookingStateMachine_validate_transition ''Cancelled'' ''Reserved'') \<and>
   booking_status checked_in_booking \<noteq> ''Reserved'' \<and>
   booking_status (change_status_seq checked_in_booking [(5, ''Reserved'', None), (6, ''CheckedOut'', None),
      (7, ''Reserved'', None)]) \<noteq> ''Reserved''"
proof -
  have st: "booking_status checked_in_booking = ''CheckedIn''"
    by (simp add: checked_in_booking_def example_booking_def)
  have nv: "(''CheckedIn'', ''Reserved'') \<notin> booking_edges"
    by (simp add: booking_edges_def)
  have nr: "booking_status checked_in_booking \<noteq> ''Reserved''"
    by (simp add: st)
  have tm: "''Cancelled'' \<in> {''CheckedOut'', ''Cancelled'', ''NoShow''}"
    by simp
  show ?thesis
    using booking_status_strictly_forward [of "''CheckedIn''" "''Reserved''" checked_in_booking 5 None
        "[(5, ''Reserved'', None), (6, ''CheckedOut'', None), (7, ''Reserved'', None)]"]
      booking_status_strictly_forward [of "''Cancelled''" "''Reserved''" checked_in_booking 5 None "[]"]
      st nv nr tm
    by blast
qed

section \<open>Room status changes follow the transition table\<close>

lemma RoomStatusValidator_validate_transition_iff:
  "fst (RoomStatusValidator_validate_transition c n) \<longleftrightarrow>
     (c, n) \<in> room_table_edges - room_blocked_edges"
  by (auto simp: RoomStatusValidator_validate_transition_def get_list_def
      VALID_ROOM_TRANSITIONS_def BLOCKED_TRANSITIONS_def room_table_edges_def
      room_blocked_edges_def Let_def split: option.splits if_splits)

lemma comprehensive_validate_edge:
  "fst (comprehensive_validate d today r n) \<Longrightarrow>
   fst (RoomStatusValidator_validate_transition (room_status r) n)"
  by (cases "RoomStatusValidator_validate_transition (room_status r) n")
     (auto simp: comprehensive_validate_def split: bool.splits)

lemma change_room_status_success_iff:
  "fst (fst (change_room_status d today r n reason uid)) \<longleftrightarrow>
     fst (comprehensive_validate d today r n)"
  by (cases "comprehensive_validate d today r n")
     (auto simp: change_room_status_def Let_def split: bool.splits)

lemma change_room_status_failure:
  "\<not> fst (comprehensive_validate d today r n) \<Longrightarrow>
   snd (change_room_status d today r n reason uid) = (r, d)"
  by (cases "comprehensive_validate d today r n")
     (auto simp: change_room_status_def Let_def split: bool.splits)

lemma change_room_status_success_status:
  "fst (comprehensive_validate d today r n) \<Longrightarrow>
   room_status (fst (snd (change_room_status d today r n reason uid))) = n"
  by (cases "comprehensive_validate d today r n")
     (auto simp: change_room_status_def Let_def split: bool.splits)

text \<open>
  C1. A room status change succeeds only along an edge of the table
  Vacant\<rightarrow>{Dirty, Reserved, Maintenance, Occupied}, Dirty\<rightarrow>{Vacant, Maintenance},
  Occupied\<rightarrow>{Dirty, Maintenance}, Reserved\<rightarrow>{Occupied, Vacant, Dirty, Maintenance},
  Maintenance\<rightarrow>{Vacant, Dirty} that is not one of the blocked edges Occupied\<rightarrow>Vacant,
  Dirty\<rightarrow>Occupied, Dirty\<rightarrow>Reserved, and then the room has the new status. A request along
  any other edge fails and leaves the room and the database as they were.
\<close>

theorem change_room_status_legal_edges:
  "(fst (fst (change_room_status d today r n reason uid)) \<longrightarrow>
      (room_status r, n) \<in> room_table_edges - room_blocked_edges \<and>
      room_status (fst (snd (change_room_status d today r n reason uid))) = n) \<and>
   ((room_status r, n) \<notin> room_table_edges - room_blocked_edges \<longrightarrow>
      \<not> fst (fst (change_room_status d today r n reason uid)) \<and>
      fst (snd (change_room_status d today r n reason uid)) = r \<and>
      snd (snd (change_room_status d today r n reason uid)) = d)"
proof -
  have edge: "fst (comprehensive_validate d today r n) \<Longrightarrow>
      (room_status r, n) \<in> room_table_edges - room_blocked_edges"
    using comprehensive_validate_edge [of d today r n]
      RoomStatusValidator_validate_transition_iff [of "room_status r" n]
    by blast
  show ?thesis
    using edge change_room_status_success_iff [of d today r n reason uid]
      change_room_status_failure [of d today r n reason uid]
      change_room_status_success_status [of d today r n reason uid]
    by (metis fst_conv snd_conv)
qed

theorem change_room_status_legal_edges_witness:
  "fst (fst (change_room_status empty_db 9 example_room ''Occupied'' ''Walk-in'' (Some 2))) \<and>
   (room_status example_room, ''Occupied'') \<in> room_table_edges - room_blocked_edges \<and>
   room_status (fst (snd (change_room_status empty_db 9 example_room ''Occupied'' ''Walk-in''
      (Some 2)))) = ''Occupied'' \<and>
   (room_status (example_room\<lparr>room_status := ''Dirty''\<rparr>), ''Occupied'') \<notin>
      room_table_edges - room_blocked_edges \<and>
   \<not> fst (fst (change_room_status empty_db 9 (example_room\<lparr>room_status := ''Dirty''\<rparr>)
      ''Occupied'' ''Walk-in'' (Some 2))) \<and>
   fst (snd (change_room_status empty_db 9 (example_room\<lparr>room_status := ''Dirty''\<rparr>)
      ''Occupied'' ''Walk-in'' (Some 2))) = example_room\<lparr>room_status := ''Dirty''\<rparr> \<and>
   snd (snd (change_room_status empty_db 9 (example_room\<lparr>room_status := ''Dirty''\<rparr>)
      ''Occupied'' ''Walk-in'' (Some 2))) = empty_db"
proof -
  have ok: "fst (comprehensive_validate empty_db 9 example_room ''Occupied'')"
    by (simp add: comprehensive_validate_def RoomStatusValidator_validate_transition_def
        BLOCKED_TRANSITIONS_def VALID_ROOM_TRANSITIONS_def get_list_def
        check_booking_conflicts_def check_housekeeping_conflicts_def
        check_room_service_conflicts_def check_maintenance_conflicts_def
        empty_db_def example_room_def)
  then have h1: "fst (fst (change_room_status empty_db 9 example_room ''Occupied'' ''Walk-in''
      (Some 2)))"
    by (simp add: change_room_status_success_iff)
  have h2: "(room_status (example_room\<lparr>room_status := ''Dirty''\<rparr>), ''Occupied'') \<notin>
      room_table_edges - room_blocked_edges"
    by (simp add: room_table_edges_def room_blocked_edges_def)
  show ?thesis
    using change_room_status_legal_edges [of empty_db 9 example_room "''Occupied''"
        "''Walk-in''" "Some 2"]
      change_room_status_legal_edges [of empty_db 9 "example_room\<lparr>room_status := ''Dirty''\<rparr>"
        "''Occupied''" "''Walk-in''" "Some 2"]
      h1 h2
    by blast
qed

section \<open>Booking creation and the physical state of the room\<close>

lemma reserve_room_rejects:
  "room_status r \<in> {''Occupied'', ''Maintenance''} \<Longrightarrow>
   reserve_room r b =
     (False, if room_status r = ''Occupied'' then ''Cannot reserve an occupied room''
             else ''Cannot reserve a room under maintenance'')"
  by (auto simp: reserve_room_def)

text \<open>
  C10. Booking creation gives no booking and a reason message whenever the room is
  physically Occupied or under Maintenance, and leaves the database as it was; this holds
  also when the dates are in order and no Reserved or CheckedIn booking of the room
  overlaps them, where the reason is the one of the room reservation step.
\<close>

theorem create_booking_rejects_unavailable_room:
  "room_status r \<in> {''Occupied'', ''Maintenance''} \<and> room_room_type r \<noteq> None \<longrightarrow>
     (\<exists>msg. msg \<noteq> [] \<and>
        create_booking d hotel g r ci co n_adults n_children requests src ref =
          Inr ((None, msg), d)) \<and>
     (ci < co \<and> overlapping d hotel r ci co = None \<longrightarrow>
        create_booking d hotel g r ci co n_adults n_children requests src ref =
          Inr ((None, if room_status r = ''Occupied'' then ''Cannot reserve an occupied room''
                      else ''Cannot reserve a room under maintenance''), d))"
proof (intro impI, elim conjE)
  assume st: "room_status r \<in> {''Occupied'', ''Maintenance''}"
    and rt: "room_room_type r \<noteq> None"
  from rt obtain t where t: "room_room_type r = Some t" by auto
  have spec: "ci < co \<and> overlapping d hotel r ci co = None \<longrightarrow>
        create_booking d hotel g r ci co n_adults n_children requests src ref =
          Inr ((None, if room_status r = ''Occupied'' then ''Cannot reserve an occupied room''
                      else ''Cannot reserve a room under maintenance''), d)"
    using st t by (auto simp: create_booking_def Let_def reserve_room_rejects)
  have gen: "\<exists>msg. msg \<noteq> [] \<and>
        create_booking d hotel g r ci co n_adults n_children requests src ref =
          Inr ((None, msg), d)"
  proof (cases "ci < co")
    case False
    then show ?thesis by (simp add: create_booking_def)
  next
    case True
    show ?thesis
    proof (cases "overlapping d hotel r ci co")
      case (Some ov)
      with True show ?thesis by (simp add: create_booking_def)
    next
      case None
      with True spec show ?thesis by auto
    qed
  qed
  from gen spec show "(\<exists>msg. msg \<noteq> [] \<and>
        create_booking d hotel g r ci co n_adults n_children requests src ref =
          Inr ((None, msg), d)) \<and>
     (ci < co \<and> overlapping d hotel r ci co = None \<longrightarrow>
        create_booking d hotel g r ci co n_adults n_children requests src ref =
          Inr ((None, if room_status r = ''Occupied'' then ''Cannot reserve an occupied room''
                      else ''Cannot reserve a room under maintenance''), d))"
    by blast
qed

theorem create_booking_rejects_unavailable_room_witness:
  "room_status occupied_room \<in> {''Occupied'', ''Maintenance''} \<and>
   room_room_type occupied_room \<noteq> None \<and> (10::int) < 12 \<and>
   overlapping empty_db 1 occupied_room 10 12 = None \<and>
   create_booking empty_db 1 example_guest occupied_room 10 12 2 0 [] ''front_desk'' ''NGD-2'' =
     Inr ((None, ''Cannot reserve an occupied room''), empty_db)"
proof -
  have h1: "room_status occupied_room \<in> {''Occupied'', ''Maintenance''}"
    by (simp add: occupied_room_def)
  have h2: "room_room_type occupied_room \<noteq> None"
    by (simp add: occupied_room_def example_room_def)
  have h3: "overlapping empty_db 1 occupied_room 10 12 = None"
    by (simp add: overlapping_def empty_db_def)
  have h4: "room_status occupied_room = ''Occupied''"
    by (simp add: occupied_room_def)
  show ?thesis
    using create_booking_rejects_unavailable_room [of occupied_room empty_db 1 example_guest
        10 12 2 0 "[]" "''front_desk''" "''NGD-2''"] h1 h2 h3 h4
    by simp
qed

section \<open>Check-out\<close>

lemma change_status_to_checked_out:
  "booking_status b = ''CheckedIn'' \<Longrightarrow>
   BookingStateMachine_change_status now b ''CheckedOut'' r =
     (True, ''Booking status changed from CheckedIn to CheckedOut'',
      b\<lparr>booking_status := ''CheckedOut'', check_out_time_actual := Some now\<rparr>)"
  by (simp add: BookingStateMachine_change_status_def BookingStateMachine_validate_transition_def
      get_list_def BOOKING_STATUS_TRANSITIONS_def)

lemma process_checkout_occupied:
  "room_status r = ''Occupied'' \<Longrightarrow>
   process_checkout d r =
     (\<lparr>task_hotel_id = room_hotel_id r, task_room_id = room_id r,
       task_type = ''checkout_clean'', task_priority = ''high'', task_status = ''pending'',
       task_notes = ''Checkout cleaning - Room '' @ room_number r\<rparr>,
      r\<lparr>room_status := ''Dirty''\<rparr>,
      d\<lparr>db_history := db_history d @
           [\<lparr>history_hotel_id = room_hotel_id r, history_room_id = room_id r,
             history_old_status = ''Occupied'', history_new_status = ''Dirty''\<rparr>],
        db_tasks := db_tasks d @
           [\<lparr>task_hotel_id = room_hotel_id r, task_room_id = room_id r,
             task_type = ''checkout_clean'', task_priority = ''high'', task_status = ''pending'',
             task_notes = ''Checkout cleaning - Room '' @ room_number r\<rparr>]\<rparr>)"
  by (simp add: process_checkout_def RoomStatusManager_change_status_def
      RoomStatusManager_validate_transition_def get_list_def VALID_STATUS_TRANSITIONS_def Let_def)

lemma calculate_balance_fields [simp]:
  "booking_status (calculate_balance b) = booking_status b"
  "booking_room (calculate_balance b) = booking_room b"
  "check_out_time_actual (calculate_balance b) = check_out_time_actual b"
  "check_in_time_actual (calculate_balance b) = check_in_time_actual b"
  "booking_payments (calculate_balance b) = booking_payments b"
  "booking_invoice (calculate_balance b) = booking_invoice b"
  "total_amount (calculate_balance b) = total_amount b"
  "balance (calculate_balance b) = total_amount b - sum_list (map payment_amount (booking_payments b))"
  "amount_paid (calculate_balance b) = sum_list (map payment_amount (booking_payments b))"
  by (simp_all add: calculate_balance_def Let_def)

text \<open>
  C7. Check-out needs the status CheckedIn, and the balance is recomputed from the
  payments before it is looked at. With a recomputed balance above zero the operation
  fails, the booking stays CheckedIn with no check-out time recorded by this call, and
  the database is untouched. With a recomputed balance of zero and the room Occupied the
  operation succeeds: the booking is CheckedOut, the check-out time is recorded, the room
  goes from Occupied to Dirty with its history row, and one pending high-priority
  checkout-cleaning task for the room is created.
\<close>

theorem check_out_needs_zero_balance:
  "(booking_status b \<noteq> ''CheckedIn'' \<longrightarrow>
      \<not> fst (fst (check_out d now b)) \<and> snd (check_out d now b) = (b, d)) \<and>
   (booking_status b = ''CheckedIn'' \<and> 0 < balance (calculate_balance b) \<longrightarrow>
      \<not> fst (fst (check_out d now b)) \<and>
      fst (snd (check_out d now b)) = calculate_balance b \<and>
      booking_status (fst (snd (check_out d now b))) = ''CheckedIn'' \<and>
      check_out_time_actual (fst (snd (check_out d now b))) = check_out_time_actual b \<and>
      snd (snd (check_out d now b)) = d) \<and>
   (booking_status b = ''CheckedIn'' \<and> balance (calculate_balance b) = 0 \<and>
    booking_room b = Some r \<and> room_status r = ''Occupied'' \<longrightarrow>
      fst (fst (check_out d now b)) \<and>
      booking_status (fst (snd (check_out d now b))) = ''CheckedOut'' \<and>
      check_out_time_actual (fst (snd (check_out d now b))) = Some now \<and>
      booking_room (fst (snd (check_out d now b))) = Some (r\<lparr>room_status := ''Dirty''\<rparr>) \<and>
      db_tasks (snd (snd (check_out d now b))) = db_tasks d @
        [\<lparr>task_hotel_id = room_hotel_id r, task_room_id = room_id r,
          task_type = ''checkout_clean'', task_priority = ''high'', task_status = ''pending'',
          task_notes = ''Checkout cleaning - Room '' @ room_number r\<rparr>] \<and>
      db_history (snd (snd (check_out d now b))) = db_history d @
        [\<lparr>history_hotel_id = room_hotel_id r, history_room_id = room_id r,
          history_old_status = ''Occupied'', history_new_status = ''Dirty''\<rparr>])"
proof (intro conjI impI)
  assume "booking_status b \<noteq> ''CheckedIn''"
  then show "\<not> fst (fst (check_out d now b))" and "snd (check_out d now b) = (b, d)"
    by (simp_all add: check_out_def)
next
  assume a: "booking_status b = ''CheckedIn'' \<and> 0 < balance (calculate_balance b)"
  then have eq: "check_out d now b =
      ((False, MsgAmount ''Outstanding balance: '' (balance (calculate_balance b))
                 ''. Please collect payment before checkout.''), calculate_balance b, d)"
    by (simp add: check_out_def Let_def)
  show "\<not> fst (fst (check_out d now b))"
    and "fst (snd (check_out d now b)) = calculate_balance b"
    and "booking_status (fst (snd (check_out d now b))) = ''CheckedIn''"
    and "check_out_time_actual (fst (snd (check_out d now b))) = check_out_time_actual b"
    and "snd (snd (check_out d now b)) = d"
    using a by (simp_all add: eq)
next
  assume a: "booking_status b = ''CheckedIn'' \<and> balance (calculate_balance b) = 0 \<and>
    booking_room b = Some r \<and> room_status r = ''Occupied''"
  let ?b1 = "(calculate_balance b)\<lparr>booking_status := ''CheckedOut'',
                check_out_time_actual := Some now\<rparr>"
  have cs: "BookingStateMachine_change_status now (calculate_balance b) ''CheckedOut''
              (Some ''Guest check-out'') =
            (True, ''Booking status changed from CheckedIn to CheckedOut'', ?b1)"
    using a by (simp add: change_status_to_checked_out)
  have eq: "check_out d now b =
      ((True, Msg ''Guest checked out successfully''),
       ?b1\<lparr>booking_room := Some (r\<lparr>room_status := ''Dirty''\<rparr>)\<rparr>,
       snd (snd (process_checkout d r)))"
    using a by (simp add: check_out_def Let_def cs check_out_room_def process_checkout_occupied)
  show "fst (fst (check_out d now b))"
    and "booking_status (fst (snd (check_out d now b))) = ''CheckedOut''"
    and "check_out_time_actual (fst (snd (check_out d now b))) = Some now"
    and "booking_room (fst (snd (check_out d now b))) = Some (r\<lparr>room_status := ''Dirty''\<rparr>)"
    and "db_tasks (snd (snd (check_out d now b))) = db_tasks d @
        [\<lparr>task_hotel_id = room_hotel_id r, task_room_id = room_id r,
          task_type = ''checkout_clean'', task_priority = ''high'', task_status = ''pending'',
          task_notes = ''Checkout cleaning - Room '' @ room_number r\<rparr>]"
    and "db_history (snd (snd (check_out d now b))) = db_history d @
        [\<lparr>history_hotel_id = room_hotel_id r, history_room_id = room_id r,
          history_old_status = ''Occupied'', history_new_status = ''Dirty''\<rparr>]"
    using a by (simp_all add: eq process_checkout_occupied)
qed

theorem check_out_needs_zero_balance_witness:
  "booking_status example_booking \<noteq> ''CheckedIn'' \<and>
   \<not> fst (fst (check_out empty_db 30 example_booking)) \<and>
   booking_status checked_in_booking = ''CheckedIn'' \<and>
   0 < balance (calculate_balance checked_in_booking) \<and>
   \<not> fst (fst (check_out empty_db 30 checked_in_booking)) \<and>
   booking_status (fst (snd (check_out empty_db 30 checked_in_booking))) = ''CheckedIn'' \<and>
   booking_status settled_booking = ''CheckedIn'' \<and>
   balance (calculate_balance settled_booking) = 0 \<and>
   booking_room settled_booking = Some occupied_room \<and>
   room_status occupied_room = ''Occupied'' \<and>
   fst (fst (check_out empty_db 30 settled_booking)) \<and>
   booking_status (fst (snd (check_out empty_db 30 settled_booking))) = ''CheckedOut'' \<and>
   check_out_time_actual (fst (snd (check_out empty_db 30 settled_booking))) = Some 30 \<and>
   booking_room (fst (snd (check_out empty_db 30 settled_booking))) =
     Some (occupied_room\<lparr>room_status := ''Dirty''\<rparr>) \<and>
   db_tasks (snd (snd (check_out empty_db 30 settled_booking))) = db_tasks empty_db @
     [\<lparr>task_hotel_id = room_hotel_id occupied_room, task_room_id = room_id occupied_room,
       task_type = ''checkout_clean'', task_priority = ''high'', task_status = ''pending'',
       task_notes = ''Checkout cleaning - Room '' @ room_number occupied_room\<rparr>]"
proof -
  have h1: "booking_status example_booking \<noteq> ''CheckedIn''"
    by (simp add: example_booking_def)
  have h2: "booking_status checked_in_booking = ''CheckedIn''"
    by (simp add: checked_in_booking_def)
  have h3: "0 < balance (calculate_balance checked_in_booking)"
    by (simp add: checked_in_booking_def example_booking_def)
  have h4: "booking_status settled_booking = ''CheckedIn''"
    by (simp add: settled_booking_def checked_in_booking_def)
  have h5: "balance (calculate_balance settled_booking) = 0"
    by (simp add: settled_booking_def checked_in_booking_def example_booking_def
        example_payment_def)
  have h6: "booking_room settled_booking = Some occupied_room"
    by (simp add: settled_booking_def checked_in_booking_def)
  have h7: "room_status occupied_room = ''Occupied''"
    by (simp add: occupied_room_def)
  show ?thesis
    using check_out_needs_zero_balance [of example_booking empty_db 30 occupied_room]
      check_out_needs_zero_balance [of checked_in_booking empty_db 30 occupied_room]
      check_out_needs_zero_balance [of settled_booking empty_db 30 occupied_room]
      h1 h2 h3 h4 h5 h6 h7
    by blast
qed

section \<open>Check-in: all or nothing\<close>












section \<open>The journal entry of a payment\<close>

lemma invalid_keyword_description:
  "invalid_keyword ''description'' ''JournalEntry'' =
     [CHR 0x27] @ ''description'' @ [CHR 0x27] @
     '' is an invalid keyword argument for JournalEntry''"
  by (simp add: invalid_keyword_def)

lemma JournalEntry_description:
  "JournalEntry h ref day [''description''] =
     Inl (invalid_keyword ''description'' ''JournalEntry'')"
  by (simp add: JournalEntry_def)

lemma create_payment_journal_entry_raises:
  "create_payment_journal_entry d today pid p hotel =
     Inl (TypeError (invalid_keyword ''description'' ''JournalEntry''))"
  by (simp add: create_payment_journal_entry_def JournalEntry_description
      split: prod.splits)

lemma record_payment_raises:
  "record_payment d today pid b amount method =
     Inl (case booking_invoice b of
            None \<Rightarrow> ValueError
          | Some i \<Rightarrow> TypeError (invalid_keyword ''description'' ''JournalEntry''))"
  by (simp add: record_payment_def Let_def create_payment_journal_entry_raises
      split: option.splits)

text \<open>
  C8. A payment received against a booking is to post a journal entry that debits Cash
  (or Bank, or Rooms Receivable) and credits Accounts Receivable, each for the payment
  amount. \<open>create_payment_journal_entry\<close> posts no entry: for every database, date,
  payment and hotel it builds the journal entry with a \<open>description\<close> keyword, which the
  class does not declare, and leaves with the TypeError of the constructor.
  \<open>record_payment\<close> calls it before it updates the invoice status and the balance, and
  leaves with the same error. Evaluated for a payment of 200,000 on the example booking,
  in a hotel that has its Cash, Room Revenue and Accounts Receivable accounts.
\<close>

theorem payment_entry_is_not_posted:
  "create_payment_journal_entry d today pid p hotel =
     Inl (TypeError ([CHR 0x27] @ ''description'' @ [CHR 0x27] @
                     '' is an invalid keyword argument for JournalEntry'')) \<and>
   create_payment_journal_entry ledger_db 9 4 example_payment 1 =
     Inl (TypeError ([CHR 0x27] @ ''description'' @ [CHR 0x27] @
                     '' is an invalid keyword argument for JournalEntry'')) \<and>
   booking_invoice example_booking = Some example_invoice \<and>
   record_payment ledger_db 9 4 example_booking 200000 ''Cash'' =
     Inl (TypeError ([CHR 0x27] @ ''description'' @ [CHR 0x27] @
                     '' is an invalid keyword argument for JournalEntry''))"
proof -
  have i: "booking_invoice example_booking = Some example_invoice"
    by (simp add: example_booking_def)
  have r: "record_payment ledger_db 9 4 example_booking 200000 ''Cash'' =
     Inl (TypeError (invalid_keyword ''description'' ''JournalEntry''))"
    by (simp add: record_payment_raises i)
  show ?thesis
    using create_payment_journal_entry_raises [of d today pid p hotel]
      create_payment_journal_entry_raises [of ledger_db 9 4 example_payment 1] i r
    unfolding invalid_keyword_description
    by blast
qed

section \<open>Cancellation fee and refund\<close>

lemma fee_percent_for_tiers:
  "fee_percent_for n = (if 7 \<le> n then 0 else if 3 \<le> n then 1 / 2 else 1)"
  by (simp add: fee_percent_for_def CANCELLATION_POLICY_def)

lemma change_status_to_cancelled:
  "booking_status b = ''Reserved'' \<Longrightarrow>
   BookingStateMachine_change_status now b ''Cancelled'' (Some reason) =
     (True, ''Booking status changed from Reserved to Cancelled'',
      if reason \<noteq> []
      then b\<lparr>booking_status := ''Cancelled'', cancelled_at := Some now,
             cancellation_reason := Some reason\<rparr>
      else b\<lparr>booking_status := ''Cancelled'', cancelled_at := Some now\<rparr>)"
  by (simp add: BookingStateMachine_change_status_def BookingStateMachine_validate_transition_def
      get_list_def BOOKING_STATUS_TRANSITIONS_def truthy_def Let_def)

lemma scenario_d:
  "cancel_booking empty_db 8 20 99 example_booking ''change of plans'' =
     Inr ((True, MsgAmount ''Booking cancelled. Cancellation fee: '' 200000 []),
          example_booking
            \<lparr>booking_status := ''Cancelled'', cancelled_at := Some 20,
             cancellation_reason := Some ''change of plans'',
             booking_payments := [fee_payment_200000],
             booking_invoice := Some (example_invoice\<lparr>invoice_total := 400000,
                                                      invoice_status := ''Paid''\<rparr>),
             amount_paid := 200000, balance := 0\<rparr>,
          empty_db)"
proof -
  have st: "booking_status example_booking = ''Reserved''"
    by (simp add: example_booking_def)
  show ?thesis
    by (simp add: cancel_booking_def st change_status_to_cancelled
        fee_percent_for_tiers post_cancellation_fee_def Let_def calculate_balance_def
        release_room_def fee_payment_200000_def
        example_booking_def example_invoice_def example_room_def)
qed

lemma free_cancellation_of_paid_booking:
  "cancel_booking ledger_db 1 20 99 paid_booking ''change of plans'' =
     Inr ((True, MsgAmount ''Booking cancelled. Cancellation fee: '' 0 []),
          paid_booking
            \<lparr>booking_status := ''Cancelled'', cancelled_at := Some 20,
             cancellation_reason := Some ''change of plans'',
             amount_paid := 200000, balance := 0\<rparr>,
          ledger_db)"
proof -
  have st: "booking_status paid_booking = ''Reserved''"
    by (simp add: paid_booking_def example_booking_def)
  show ?thesis
    by (simp add: cancel_booking_def st change_status_to_cancelled
        fee_percent_for_tiers Let_def calculate_balance_def release_room_def
        paid_booking_def example_payment_def
        example_booking_def example_invoice_def example_room_def)
qed

text \<open>
  The paid booking cancelled two days before check-in, after the status change and the
  posting of the fee: the fee row counts as money received, so the balance is 200,000
  below zero.
\<close>

lemma late_cancellation_fee_posted:
  "post_cancellation_fee
     (paid_booking\<lparr>booking_status := ''Cancelled'', cancelled_at := Some 20,
                    cancellation_reason := Some ''change of plans''\<rparr>) 200000 =
   Inr (fee_payment_200000,
        paid_booking
          \<lparr>booking_status := ''Cancelled'', cancelled_at := Some 20,
           cancellation_reason := Some ''change of plans'',
           booking_payments := [example_payment, fee_payment_200000],
           booking_invoice := Some (example_invoice\<lparr>invoice_total := 400000,
                                                    invoice_status := ''Paid''\<rparr>),
           amount_paid := 400000, balance := - 200000\<rparr>)"
  by (simp add: post_cancellation_fee_def Let_def calculate_balance_def
      fee_payment_200000_def paid_booking_def example_payment_def example_booking_def
      example_invoice_def)

lemma late_cancellation_refund_attempt:
  "process_refund ledger_db 8 99
     (paid_booking
        \<lparr>booking_status := ''Cancelled'', cancelled_at := Some 20,
         cancellation_reason := Some ''change of plans'',
         booking_payments := [example_payment, fee_payment_200000],
         booking_invoice := Some (example_invoice\<lparr>invoice_total := 400000,
                                                  invoice_status := ''Paid''\<rparr>),
         amount_paid := 400000, balance := - 200000\<rparr>)
     200000 (MsgAmount ''Cancellation refund (fee: '' 200000 '')'') =
   Inl (TypeError (invalid_keyword ''description'' ''JournalEntry''))"
  by (simp add: process_refund_def find_account_def Let_def JournalEntry_description
      paid_booking_def ledger_db_def empty_db_def example_booking_def)

lemma late_cancellation_of_paid_booking:
  "cancel_booking ledger_db 8 20 99 paid_booking ''change of plans'' =
     Inl (TypeError (invalid_keyword ''description'' ''JournalEntry''))"
proof -
  have st: "booking_status paid_booking = ''Reserved''"
    by (simp add: paid_booking_def example_booking_def)
  show ?thesis
    by (simp add: cancel_booking_def st change_status_to_cancelled
        fee_percent_for_tiers post_cancellation_fee_def process_refund_def find_account_def
        Let_def calculate_balance_def JournalEntry_description
        fee_payment_200000_def
        paid_booking_def example_payment_def ledger_db_def empty_db_def
        example_booking_def example_invoice_def example_room_def)
qed

text \<open>
  C5. Cancelling charges total\_amount times the tier percentage (0 from seven days
  before check-in, one half from three days, all of it below) and is to refund what the
  guest has paid beyond the fee; two days before check-in, with a total of 200,000 and
  nothing paid, that is a fee of 200,000, no refund and 200,000 owed. The tiers are as
  stated (lemma \<open>fee_percent_for_tiers\<close>), but the fee is written as a payment row with a
  positive amount, which the recomputation of the balance counts as money received.
  Evaluated: in that scenario the fee of 200,000 is posted, there is no refund, and the
  booking ends with amount\_paid 200,000 and balance 0; a fully paid booking cancelled nine
  days ahead (fee 0) gets no refund; for the same booking cancelled two days ahead (fee
  200,000, all that was paid) the posting of the fee brings the balance to 200,000 below
  zero, a refund of 200,000 is attempted, its journal entry raises TypeError, and the
  cancellation leaves with that error.
\<close>

theorem cancel_booking_counts_fee_as_payment:
  "cancel_booking empty_db 8 20 99 example_booking ''change of plans'' =
     Inr ((True, MsgAmount ''Booking cancelled. Cancellation fee: '' 200000 []),
          example_booking
            \<lparr>booking_status := ''Cancelled'', cancelled_at := Some 20,
             cancellation_reason := Some ''change of plans'',
             booking_payments := [fee_payment_200000],
             booking_invoice := Some (example_invoice\<lparr>invoice_total := 400000,
                                                      invoice_status := ''Paid''\<rparr>),
             amount_paid := 200000, balance := 0\<rparr>,
          empty_db) \<and>
   cancel_booking ledger_db 1 20 99 paid_booking ''change of plans'' =
     Inr ((True, MsgAmount ''Booking cancelled. Cancellation fee: '' 0 []),
          paid_booking
            \<lparr>booking_status := ''Cancelled'', cancelled_at := Some 20,
             cancellation_reason := Some ''change of plans'',
             amount_paid := 200000, balance := 0\<rparr>,
          ledger_db) \<and>
   post_cancellation_fee
     (paid_booking\<lparr>booking_status := ''Cancelled'', cancelled_at := Some 20,
                    cancellation_reason := Some ''change of plans''\<rparr>) 200000 =
     Inr (fee_payment_200000,
          paid_booking
            \<lparr>booking_status := ''Cancelled'', cancelled_at := Some 20,
             cancellation_reason := Some ''change of plans'',
             booking_payments := [example_payment, fee_payment_200000],
             booking_invoice := Some (example_invoice\<lparr>invoice_total := 400000,
                                                      invoice_status := ''Paid''\<rparr>),
             amount_paid := 400000, balance := - 200000\<rparr>) \<and>
   process_refund ledger_db 8 99
     (paid_booking
        \<lparr>booking_status := ''Cancelled'', cancelled_at := Some 20,
         cancellation_reason := Some ''change of plans'',
         booking_payments := [example_payment, fee_payment_200000],
         booking_invoice := Some (example_invoice\<lparr>invoice_total := 400000,
                                                  invoice_status := ''Paid''\<rparr>),
         amount_paid := 400000, balance := - 200000\<rparr>)
     200000 (MsgAmount ''Cancellation refund (fee: '' 200000 '')'') =
     Inl (TypeError ([CHR 0x27] @ ''description'' @ [CHR 0x27] @
                     '' is an invalid keyword argument for JournalEntry'')) \<and>
   cancel_booking ledger_db 8 20 99 paid_booking ''change of plans'' =
     Inl (TypeError ([CHR 0x27] @ ''description'' @ [CHR 0x27] @
                     '' is an invalid keyword argument for JournalEntry''))"
  using scenario_d free_cancellation_of_paid_booking late_cancellation_fee_posted
    late_cancellation_refund_attempt late_cancellation_of_paid_booking
  unfolding invalid_keyword_description
  by blast

section \<open>Night audit\<close>

lemma charge_room_eq:
  "charge_room h today ar rr b =
     (if has_rate_and_invoice b
      then (charged b, Inl (invalid_keyword ''description'' ''JournalEntry''))
      else (b, Inr None))"
proof (cases "booking_room b")
  case None
  then show ?thesis by (simp add: charge_room_def has_rate_and_invoice_def)
next
  case (Some r)
  note r = this
  show ?thesis
  proof (cases "room_room_type r")
    case None
    with r show ?thesis by (simp add: charge_room_def has_rate_and_invoice_def)
  next
    case (Some rt)
    note rt = this
    show ?thesis
    proof (cases "booking_invoice b")
      case None
      with r rt show ?thesis by (simp add: charge_room_def Let_def has_rate_and_invoice_def)
    next
      case (Some i)
      with r rt show ?thesis
        by (simp add: charge_room_def Let_def charged_def JournalEntry_def
            room_rate_of_def has_rate_and_invoice_def)
    qed
  qed
qed

lemma charge_occupied_eq:
  "charge_occupied h today ar rr bs =
     (map (\<lambda>b. if chargeable h b then charged b else b) bs, [], 0, 0,
      map charge_error (filter (chargeable h) bs))"
proof (induction bs)
  case Nil
  show ?case by simp
next
  case (Cons b bs)
  show ?case
    by (simp add: Cons.IH charge_room_eq chargeable_def charge_error_def)
qed

lemma find_snoc_None:
  "find P xs = None \<Longrightarrow> find P (xs @ [x]) = (if P x then Some x else None)"
  by (induction xs) (auto split: if_splits)

lemma find_update_first:
  "find P xs = Some x \<Longrightarrow> P (f x) \<Longrightarrow> find P (update_first P f xs) = Some (f x)"
  by (induction xs) (auto split: if_splits)

lemma get_or_create_business_date_find:
  "get_or_create_business_date d h today = (bd, d') \<Longrightarrow>
   find (\<lambda>x. business_date_hotel_id x = h) (db_business_dates d') = Some bd \<and>
   db_journal d' = db_journal d \<and> db_bookings d' = db_bookings d \<and>
   db_accounts d' = db_accounts d \<and> db_restaurant_orders d' = db_restaurant_orders d \<and>
   db_audit_logs d' = db_audit_logs d"
  by (cases "find (\<lambda>x. business_date_hotel_id x = h) (db_business_dates d)")
     (auto simp: get_or_create_business_date_def Let_def find_snoc_None)

lemma get_or_create_business_date_open:
  assumes "get_or_create_business_date d h today = (bd, d')"
    and "\<And>x. find (\<lambda>x. business_date_hotel_id x = h) (db_business_dates d) = Some x \<Longrightarrow>
           \<not> is_closed x"
  shows "\<not> is_closed bd"
  using assms
  by (cases "find (\<lambda>x. business_date_hotel_id x = h) (db_business_dates d)")
     (auto simp: get_or_create_business_date_def Let_def)

lemma get_or_create_business_date_existing:
  "find (\<lambda>x. business_date_hotel_id x = h) (db_business_dates d) = Some bd \<Longrightarrow>
   get_or_create_business_date d h today = (bd, d)"
  by (simp add: get_or_create_business_date_def)

lemma find_or_add_by_name:
  assumes "(case find_account_by_name d h name of
              Some a \<Rightarrow> (a, d)
            | None \<Rightarrow> add_account d h name ty) = (a, d')"
  shows "a \<in> set (db_accounts d') \<and> account_hotel_id a = h \<and> account_name a = name \<and>
    db_journal d' = db_journal d \<and> db_bookings d' = db_bookings d \<and>
    db_business_dates d' = db_business_dates d \<and> db_audit_logs d' = db_audit_logs d \<and>
    set (db_accounts d) \<subseteq> set (db_accounts d')"
proof (cases "find_account_by_name d h name")
  case None
  with assms show ?thesis
    by (auto simp: add_account_def Let_def)
next
  case (Some x)
  with assms have "x = a" and "d' = d"
    by simp_all
  with Some show ?thesis
    by (auto simp: find_account_by_name_def find_Some_iff)
qed

lemma run_night_audit_open:
  assumes "h \<noteq> 0"
    and "get_or_create_business_date d h today = (bd, d1)"
    and "\<not> is_closed bd"
    and "(case find_account_by_name d1 h ''Room Revenue'' of
            Some a \<Rightarrow> (a, d1)
          | None \<Rightarrow> add_account d1 h ''Room Revenue'' ''Revenue'') = (rr, d2)"
    and "(case find_account_by_name d2 h ''Accounts Receivable'' of
            Some a \<Rightarrow> (a, d2)
          | None \<Rightarrow> add_account d2 h ''Accounts Receivable'' ''Asset'') = (ar, d3)"
  shows "db_journal (snd (run_night_audit d (Some h) today now u)) = db_journal d3"
    and "db_bookings (snd (run_night_audit d (Some h) today now u)) =
           map (\<lambda>b. if chargeable h b then charged b else b) (db_bookings d3)"
    and "db_business_dates (snd (run_night_audit d (Some h) today now u)) =
           update_first (\<lambda>bd. business_date_hotel_id bd = h)
             (\<lambda>bd. bd\<lparr>is_closed := True, current_business_date := today + 1,
                       business_date_updated_at := Some now\<rparr>)
             (db_business_dates d3)"
    and "db_accounts (snd (run_night_audit d (Some h) today now u)) = db_accounts d3"
    and "fst (fst (run_night_audit d (Some h) today now u)) =
           completion_flashes today 0 0
             (audit_warnings
                (length (filter (\<lambda>b. booking_hotel_id b = h \<and> check_in_date b = today \<and>
                                      balance b > 0) (db_bookings d1)))
                (length (filter (\<lambda>ord. restaurant_order_hotel_id ord = h \<and>
                                        restaurant_order_status ord = ''pending'')
                           (db_restaurant_orders d1)))
                (length (filter (\<lambda>b. booking_hotel_id b = h \<and> booking_status b = ''CheckedIn'')
                           (db_bookings d1))))
             (map charge_error (filter (chargeable h) (db_bookings d3)))"
  using assms
  by (simp_all add: run_night_audit_def charge_occupied_eq Let_def)

lemma run_night_audit_closed:
  assumes "h \<noteq> 0"
    and "find (\<lambda>x. business_date_hotel_id x = h) (db_business_dates d) = Some bd"
    and "is_closed bd"
  shows "run_night_audit d (Some h) today now u =
           (([(Msg ''Business day is already closed and locked.'', ''warning'')],
             ''hms.night_audit''),
            d\<lparr>db_audit_logs := db_audit_logs d @ [rejected_log h today now u]\<rparr>)"
  using assms
  by (simp add: run_night_audit_def get_or_create_business_date_existing Let_def
      rejected_log_def)

text \<open>
  C6. A night audit run against a business date that is already closed is turned away:
  it answers with the one warning that the business day is already closed and locked,
  and it changes nothing but the audit log, to which it adds the row of the rejected
  run. The journal and its lines, the bookings with their invoices and balances, the
  chart of accounts and the business date are as before. A run against an open business
  date never gives this answer.
\<close>

theorem night_audit_on_closed_date_is_noop:
  "h \<noteq> 0 \<and> find (\<lambda>x. business_date_hotel_id x = h) (db_business_dates d) = Some bd \<longrightarrow>
   (is_closed bd \<longrightarrow>
      fst (run_night_audit d (Some h) today now u) =
        ([(Msg ''Business day is already closed and locked.'', ''warning'')],
         ''hms.night_audit'') \<and>
      snd (run_night_audit d (Some h) today now u) =
        d\<lparr>db_audit_logs := db_audit_logs d @ [rejected_log h today now u]\<rparr> \<and>
      db_journal (snd (run_night_audit d (Some h) today now u)) = db_journal d \<and>
      db_bookings (snd (run_night_audit d (Some h) today now u)) = db_bookings d \<and>
      db_accounts (snd (run_night_audit d (Some h) today now u)) = db_accounts d \<and>
      db_business_dates (snd (run_night_audit d (Some h) today now u)) = db_business_dates d) \<and>
   (\<not> is_closed bd \<longrightarrow>
      fst (run_night_audit d (Some h) today now u) \<noteq>
        ([(Msg ''Business day is already closed and locked.'', ''warning'')],
         ''hms.night_audit''))"
proof (intro impI conjI; elim conjE)
  assume h: "h \<noteq> 0"
    and f: "find (\<lambda>x. business_date_hotel_id x = h) (db_business_dates d) = Some bd"
  {
    assume c: "is_closed bd"
    note eq = run_night_audit_closed [OF h f c, of today now u]
    show "fst (run_night_audit d (Some h) today now u) =
        ([(Msg ''Business day is already closed and locked.'', ''warning'')],
         ''hms.night_audit'')"
      and "snd (run_night_audit d (Some h) today now u) =
        d\<lparr>db_audit_logs := db_audit_logs d @ [rejected_log h today now u]\<rparr>"
      and "db_journal (snd (run_night_audit d (Some h) today now u)) = db_journal d"
      and "db_bookings (snd (run_night_audit d (Some h) today now u)) = db_bookings d"
      and "db_accounts (snd (run_night_audit d (Some h) today now u)) = db_accounts d"
      and "db_business_dates (snd (run_night_audit d (Some h) today now u)) =
        db_business_dates d"
      by (simp_all add: eq)
  }
  {
    assume o: "\<not> is_closed bd"
    obtain rr d2 where rr: "(case find_account_by_name d h ''Room Revenue'' of
            Some a \<Rightarrow> (a, d)
          | None \<Rightarrow> add_account d h ''Room Revenue'' ''Revenue'') = (rr, d2)"
      by (cases "case find_account_by_name d h ''Room Revenue'' of
            Some a \<Rightarrow> (a, d)
          | None \<Rightarrow> add_account d h ''Room Revenue'' ''Revenue''")
    obtain ar d3 where ar: "(case find_account_by_name d2 h ''Accounts Receivable'' of
            Some a \<Rightarrow> (a, d2)
          | None \<Rightarrow> add_account d2 h ''Accounts Receivable'' ''Asset'') = (ar, d3)"
      by (cases "case find_account_by_name d2 h ''Accounts Receivable'' of
            Some a \<Rightarrow> (a, d2)
          | None \<Rightarrow> add_account d2 h ''Accounts Receivable'' ''Asset''")
    have "fst (fst (run_night_audit d (Some h) today now u)) \<noteq>
        [(Msg ''Business day is already closed and locked.'', ''warning'')]"
      unfolding run_night_audit_open(5)
        [OF h get_or_create_business_date_existing [OF f] o rr ar]
      by (simp add: completion_flashes_def)
    then show "fst (run_night_audit d (Some h) today now u) \<noteq>
        ([(Msg ''Business day is already closed and locked.'', ''warning'')],
         ''hms.night_audit'')"
      by (cases "run_night_audit d (Some h) today now u") auto
  }
qed

theorem night_audit_on_closed_date_is_noop_witness:
  "(1::nat) \<noteq> 0 \<and>
   find (\<lambda>x. business_date_hotel_id x = 1) (db_business_dates closed_db) =
     Some (open_date\<lparr>is_closed := True\<rparr>) \<and>
   is_closed (open_date\<lparr>is_closed := True\<rparr>) \<and>
   fst (run_night_audit closed_db (Some 1) 100 50 2) =
     ([(Msg ''Business day is already closed and locked.'', ''warning'')],
      ''hms.night_audit'') \<and>
   db_journal (snd (run_night_audit closed_db (Some 1) 100 50 2)) = db_journal closed_db \<and>
   db_bookings (snd (run_night_audit closed_db (Some 1) 100 50 2)) = db_bookings closed_db \<and>
   db_business_dates (snd (run_night_audit closed_db (Some 1) 100 50 2)) =
     db_business_dates closed_db \<and>
   find (\<lambda>x. business_date_hotel_id x = 1) (db_business_dates audit_db) = Some open_date \<and>
   \<not> is_closed open_date \<and>
   fst (run_night_audit audit_db (Some 1) 100 50 2) \<noteq>
     ([(Msg ''Business day is already closed and locked.'', ''warning'')],
      ''hms.night_audit'')"
proof -
  have f: "find (\<lambda>x. business_date_hotel_id x = 1) (db_business_dates closed_db) =
     Some (open_date\<lparr>is_closed := True\<rparr>)"
    by (simp add: closed_db_def open_date_def)
  have c: "is_closed (open_date\<lparr>is_closed := True\<rparr>)"
    by simp
  have g: "find (\<lambda>x. business_date_hotel_id x = 1) (db_business_dates audit_db) =
     Some open_date"
    by (simp add: audit_db_def open_date_def)
  have o: "\<not> is_closed open_date"
    by (simp add: open_date_def)
  have n: "(1::nat) \<noteq> 0"
    by simp
  show ?thesis
    using night_audit_on_closed_date_is_noop
        [of 1 closed_db "open_date\<lparr>is_closed := True\<rparr>" 100 50 2]
      night_audit_on_closed_date_is_noop [of 1 audit_db open_date 100 50 2]
      f c g o n
    by blast
qed

section \<open>Night audit: the charge and its journal entry\<close>

lemma run_night_audit_journal:
  "db_journal (snd (run_night_audit d hotel_opt today now u)) = db_journal d"
proof (cases "case hotel_opt of None \<Rightarrow> None | Some h \<Rightarrow> if h = 0 then None else Some h")
  case None
  then have "snd (run_night_audit d hotel_opt today now u) = d"
    by (simp add: run_night_audit_def)
  then show ?thesis by simp
next
  case (Some h)
  then have ho: "hotel_opt = Some h" and h: "h \<noteq> 0"
    by (auto split: option.splits if_splits)
  obtain bd d1 where b: "get_or_create_business_date d h today = (bd, d1)"
    by (cases "get_or_create_business_date d h today")
  note f1 = get_or_create_business_date_find [OF b]
  show ?thesis
  proof (cases "is_closed bd")
    case True
    then have "db_journal (snd (run_night_audit d hotel_opt today now u)) = db_journal d1"
      using h b by (simp add: run_night_audit_def ho Let_def)
    with f1 show ?thesis by simp
  next
    case False
    obtain rr d2 where rr: "(case find_account_by_name d1 h ''Room Revenue'' of
            Some a \<Rightarrow> (a, d1)
          | None \<Rightarrow> add_account d1 h ''Room Revenue'' ''Revenue'') = (rr, d2)"
      by (cases "case find_account_by_name d1 h ''Room Revenue'' of
            Some a \<Rightarrow> (a, d1)
          | None \<Rightarrow> add_account d1 h ''Room Revenue'' ''Revenue''")
    obtain ar d3 where ar: "(case find_account_by_name d2 h ''Accounts Receivable'' of
            Some a \<Rightarrow> (a, d2)
          | None \<Rightarrow> add_account d2 h ''Accounts Receivable'' ''Asset'') = (ar, d3)"
      by (cases "case find_account_by_name d2 h ''Accounts Receivable'' of
            Some a \<Rightarrow> (a, d2)
          | None \<Rightarrow> add_account d2 h ''Accounts Receivable'' ''Asset''")
    have j3: "db_journal d3 = db_journal d"
      using f1 find_or_add_by_name [OF rr] find_or_add_by_name [OF ar] by simp
    show ?thesis
      unfolding ho run_night_audit_open(1) [OF h b False rr ar] by (rule j3)
  qed
qed

lemma digit_char_0_1:
  "digit_char 0 = CHR ''0''" "digit_char (Suc 0) = CHR ''1''"
  by (simp_all add: digit_char_def char_of_def bit_0)

lemma str_nat_0_1:
  "str_nat 0 = ''0''" "str_nat (Suc 0) = ''1''"
  by (simp_all add: str_nat_def digit_char_0_1)

lemma first_night_run:
  "run_night_audit first_night_db (Some 1) 10 50 2 =
     (([(Msg '' Night audit completed successfully!'', ''success''),
        (MsgDate '' Business day CLOSED for '' 10, ''info''),
        (MsgDate '' New business date: '' 11, ''info''),
        (MsgAmount '' Room revenue posted: $'' 0 '' from 0 rooms'', ''success''),
        (Msg '' 1 guests still checked in'', ''warning''),
        (Msg ('' Error charging room 101: '' @ [CHR 0x27] @ ''description'' @ [CHR 0x27] @
              '' is an invalid keyword argument for JournalEntry''), ''danger''),
        (Msg '' Error running night audit. Please check logs.'', ''danger'')],
       ''hms.night_audit''),
      first_night_db
        \<lparr>db_bookings :=
           [checked_in_booking
              \<lparr>booking_invoice := Some (example_invoice\<lparr>invoice_total := 250000\<rparr>),
               balance := 50000\<rparr>],
         db_accounts :=
           [\<lparr>account_id = 1, account_hotel_id = 1, account_name = ''Room Revenue'',
             account_type = ''Revenue''\<rparr>,
            \<lparr>account_id = 2, account_hotel_id = 1, account_name = ''Accounts Receivable'',
             account_type = ''Asset''\<rparr>],
         db_business_dates :=
           [\<lparr>business_date_hotel_id = 1, current_business_date = 11, is_closed = True,
             business_date_updated_at = Some 50\<rparr>],
         db_audit_logs :=
           [\<lparr>log_hotel_id = 1, log_audit_date = 10, log_run_by = 2, log_started_at = 50,
             log_completed_at = Some 50, log_status = ''failed'',
             log_summary =
               Some \<lparr>summary_unpaid_bookings = 0, summary_pending_orders = 0,
                     summary_checked_in_guests = 1, summary_rooms_charged = 0,
                     summary_revenue_posted = 0,
                     summary_warnings = [''1 guests still checked in''],
                     summary_errors =
                       [''Error charging room 101: '' @ [CHR 0x27] @ ''description'' @
                        [CHR 0x27] @ '' is an invalid keyword argument for JournalEntry'']\<rparr>,
             log_errors = Some ([CHR 0x27] @ ''datetime.timedelta'' @ [CHR 0x27] @
                                '' object has no attribute '' @ [CHR 0x27] @
                                ''strftime'' @ [CHR 0x27]),
             log_notes = Some (11, 0, 0)\<rparr>]\<rparr>)"
  by (simp add: run_night_audit_def get_or_create_business_date_def find_account_by_name_def
      add_account_def fresh_account_id_def Let_def charge_occupied_eq chargeable_def
      has_rate_and_invoice_def charged_def room_rate_of_def charge_error_def
      invalid_keyword_def audit_warnings_def completion_flashes_def str_nat_0_1
      first_night_db_def empty_db_def checked_in_booking_def
      example_booking_def occupied_room_def example_room_def example_room_type_def
      example_invoice_def)

text \<open>
  C4. The night audit of an open business date is to post, for every CheckedIn booking,
  one balanced journal entry (debit Accounts Receivable, credit Room Revenue) for one
  night's rate, to raise the booking's invoice total and balance by the same amount, to
  close the business date and to advance it by one day. No run of the audit adds an
  entry to the journal: the charging loop raises the invoice total and the balance, then
  builds the journal entry with a \<open>description\<close> keyword, which the class does not
  declare; the TypeError is caught for the booking and recorded as an error of its room.
  Evaluated for hotel 1 on the night of its first audit, day 10, with one CheckedIn
  booking at the rate 50,000: the invoice total goes from 200,000 to 250,000 and the
  balance from 0 to 50,000, the journal stays empty, the audit reports a revenue of 0
  from 0 rooms and the error of room 101, and the business date is closed and set to
  day 11.
\<close>

theorem night_audit_charges_without_posting:
  "db_journal (snd (run_night_audit d hotel_opt today now u)) = db_journal d \<and>
   db_bookings first_night_db = [checked_in_booking] \<and>
   db_journal first_night_db = [] \<and>
   db_business_dates first_night_db = [] \<and>
   booking_hotel_id checked_in_booking = 1 \<and>
   booking_status checked_in_booking = ''CheckedIn'' \<and>
   room_rate_of checked_in_booking = 50000 \<and>
   booking_invoice checked_in_booking = Some example_invoice \<and>
   invoice_total example_invoice = 200000 \<and>
   balance checked_in_booking = 0 \<and>
   run_night_audit first_night_db (Some 1) 10 50 2 =
     (([(Msg '' Night audit completed successfully!'', ''success''),
        (MsgDate '' Business day CLOSED for '' 10, ''info''),
        (MsgDate '' New business date: '' 11, ''info''),
        (MsgAmount '' Room revenue posted: $'' 0 '' from 0 rooms'', ''success''),
        (Msg '' 1 guests still checked in'', ''warning''),
        (Msg ('' Error charging room 101: '' @ [CHR 0x27] @ ''description'' @ [CHR 0x27] @
              '' is an invalid keyword argument for JournalEntry''), ''danger''),
        (Msg '' Error running night audit. Please check logs.'', ''danger'')],
       ''hms.night_audit''),
      first_night_db
        \<lparr>db_bookings :=
           [checked_in_booking
              \<lparr>booking_invoice := Some (example_invoice\<lparr>invoice_total := 250000\<rparr>),
               balance := 50000\<rparr>],
         db_accounts :=
           [\<lparr>account_id = 1, account_hotel_id = 1, account_name = ''Room Revenue'',
             account_type = ''Revenue''\<rparr>,
            \<lparr>account_id = 2, account_hotel_id = 1, account_name = ''Accounts Receivable'',
             account_type = ''Asset''\<rparr>],
         db_business_dates :=
           [\<lparr>business_date_hotel_id = 1, current_business_date = 11, is_closed = True,
             business_date_updated_at = Some 50\<rparr>],
         db_audit_logs :=
           [\<lparr>log_hotel_id = 1, log_audit_date = 10, log_run_by = 2, log_started_at = 50,
             log_completed_at = Some 50, log_status = ''failed'',
             log_summary =
               Some \<lparr>summary_unpaid_bookings = 0, summary_pending_orders = 0,
                     summary_checked_in_guests = 1, summary_rooms_charged = 0,
                     summary_revenue_posted = 0,
                     summary_warnings = [''1 guests still checked in''],
                     summary_errors =
                       [''Error charging room 101: '' @ [CHR 0x27] @ ''description'' @
                        [CHR 0x27] @ '' is an invalid keyword argument for JournalEntry'']\<rparr>,
             log_errors = Some ([CHR 0x27] @ ''datetime.timedelta'' @ [CHR 0x27] @
                                '' object has no attribute '' @ [CHR 0x27] @
                                ''strftime'' @ [CHR 0x27]),
             log_notes = Some (11, 0, 0)\<rparr>]\<rparr>)"
proof -
  have a: "db_bookings first_night_db = [checked_in_booking]"
    and b: "db_journal first_night_db = []"
    and c: "db_business_dates first_night_db = []"
    by (simp_all add: first_night_db_def empty_db_def)
  have e: "booking_hotel_id checked_in_booking = 1"
    and f: "booking_status checked_in_booking = ''CheckedIn''"
    and g: "room_rate_of checked_in_booking = 50000"
    and h: "booking_invoice checked_in_booking = Some example_invoice"
    and i: "invoice_total example_invoice = 200000"
    and j: "balance checked_in_booking = 0"
    by (simp_all add: room_rate_of_def checked_in_booking_def example_booking_def
        occupied_room_def example_room_def example_room_type_def example_invoice_def)
  show ?thesis
    by (intro conjI) (rule run_night_audit_journal a b c e f g h i j first_night_run)+
qed

section \<open>Every posted journal entry is balanced\<close>











end
